theory Spec2Isabelle
  imports Complex_Main
begin

text \<open>
  A model of \<open>pdf_compressor.py\<close>: the class \<open>PDFCompressor\<close> with its three compression
  methods, \<open>compress_file\<close>, \<open>compress_batch\<close>, and the part of \<open>main\<close> that comes
  after the arguments are parsed. The file system, the Ghostscript process and the PDF
  library are outside the program: the file system is a map from paths to file sizes that
  the functions pass along, the process and the library are parameters that say, for every
  call, what they return and what they leave at their output path. Logging is left out;
  \<open>KeyboardInterrupt\<close> is not modelled.
\<close>

section \<open>Paths\<close>

text \<open>
  A \<open>pathlib.Path\<close> is its anchor (drive and root, empty for a relative path) and the list
  of its remaining components. Two paths denote the same file exactly when they are equal
  (no symbolic links, no \<open>..\<close> components, a case-sensitive file system).
\<close>

datatype path = Path (anchor: string) (parts: "string list")

definition parent :: "path \<Rightarrow> path" where
  "parent p = Path (anchor p) (butlast (parts p))"

definition name :: "path \<Rightarrow> string" where
  "name p = (if parts p = [] then [] else last (parts p))"

text \<open>\<open>p / s\<close> for a string \<open>s\<close> that is one component (it holds no separator).\<close>

definition joinpath :: "path \<Rightarrow> string \<Rightarrow> path" where
  "joinpath p s = (if s = [] then p else Path (anchor p) (parts p @ [s]))"

text \<open>\<open>str.rfind\<close>: the index of the last occurrence of a character, or \<open>-1\<close>.\<close>

definition rfind :: "char \<Rightarrow> string \<Rightarrow> int" where
  "rfind c s =
     (if c \<in> set s then int (length s) - 1 - int (length (takeWhile (\<lambda>x. x \<noteq> c) (rev s)))
      else - 1)"

text \<open>
  \<open>PurePath.suffix\<close> and \<open>PurePath.stem\<close> (Python 3.8 to 3.13): the name is cut at its last
  dot, unless that dot is the first or the last character of the name.
\<close>

definition suffix :: "path \<Rightarrow> string" where
  "suffix p =
     (let nm = name p; i = rfind (CHR ''.'') nm
      in if 0 < i \<and> i < int (length nm) - 1 then drop (nat i) nm else [])"

definition stem :: "path \<Rightarrow> string" where
  "stem p =
     (let nm = name p; i = rfind (CHR ''.'') nm
      in if 0 < i \<and> i < int (length nm) - 1 then take (nat i) nm else nm)"

text \<open>\<open>str.lower\<close> on the ASCII letters.\<close>

definition lower_char :: "char \<Rightarrow> char" where
  "lower_char c =
     (let n = (of_char c :: nat) in if 65 \<le> n \<and> n \<le> 90 then char_of (n + 32) else c)"

definition lower :: "string \<Rightarrow> string" where
  "lower s = map lower_char s"

section \<open>The world: files and the trace of compression attempts\<close>

datatype error = FileNotFoundError | FileExistsError | ZeroDivisionError
  | OverflowError | ValueError

text \<open>
  One entry per call of a compression method, in the order of the calls:
  input path, output path, and for Ghostscript the preset (with the image resolution and
  the JPEG quality for the advanced method).
\<close>

datatype call =
    Ghostscript path path string
  | GhostscriptAdvanced path path string int int
  | PyPDF path path

text \<open>
  The file system maps the path of every regular file to its size in bytes. Directories
  are not part of it: \<open>mkdir(parents=True, exist_ok=True)\<close> changes no file.
\<close>

record world =
  files :: "path \<rightharpoonup> nat"
  calls :: "call list"

text \<open>The command line handed to \<open>subprocess.run\<close> (the constant flags are left out).\<close>

record gs_cmd =
  executable :: string
  pdfsettings :: string
  image_settings :: "(int \<times> int \<times> int \<times> int) option"
  output_file :: path
  input_file :: path

text \<open>
  What \<open>subprocess.run(cmd, capture_output=True, text=True)\<close> does: the process ran and
  returned a code, leaving at its output path either nothing new (\<open>None\<close>) or a file of
  the given size; or the executable was not found; or the call raised another exception.
  That exception can come before the process starts, and it can come after the process
  has ended with any code and has written its output (decoding the captured output with
  \<open>text=True\<close> raises UnicodeDecodeError): \<open>RunRaised\<close> carries what the process left.
\<close>

datatype run_result =
    Completed int "nat option"
  | ExeNotFound
  | RunRaised "nat option"

text \<open>What \<open>subprocess.run([exe, '--version'], capture_output=True, check=True)\<close> does.\<close>

datatype probe_result = ProbeOk | ProbeCalledProcessError | ProbeFileNotFound | ProbeRaised

text \<open>
  What the page rewrite with the PDF library does: it wrote the whole output, or it
  raised, before opening the output (\<open>None\<close>) or leaving a file of the given size there.
\<close>

datatype lib_result = LibWritten nat | LibRaised "nat option"

text \<open>
  Everything outside the program: the platform, the Ghostscript executables, the
  Ghostscript process and the PDF library. The process and the library may depend on
  the whole state of the world at the time they run.
\<close>

record env =
  windows :: bool
  probe :: "string \<Rightarrow> probe_result"
  engine :: "world \<Rightarrow> gs_cmd \<Rightarrow> run_result"
  PYPDF_AVAILABLE :: bool
  pypdf :: "world \<Rightarrow> path \<Rightarrow> path \<Rightarrow> bool \<Rightarrow> lib_result"

definition exists_path :: "world \<Rightarrow> path \<Rightarrow> bool" where
  "exists_path w p = (files w p \<noteq> None)"

definition get_file_size :: "world \<Rightarrow> path \<Rightarrow> error + nat" where
  "get_file_size w p = (case files w p of None \<Rightarrow> Inl FileNotFoundError | Some n \<Rightarrow> Inr n)"

text \<open>\<open>Path.unlink(missing_ok=True)\<close>.\<close>

definition unlink :: "world \<Rightarrow> path \<Rightarrow> world" where
  "unlink w p = w\<lparr>files := (files w)(p := None)\<rparr>"

text \<open>
  \<open>Path.rename(target)\<close>: the source must exist; on Windows an existing target raises
  FileExistsError, elsewhere an existing file is replaced.
\<close>

definition rename :: "env \<Rightarrow> world \<Rightarrow> path \<Rightarrow> path \<Rightarrow> error + world" where
  "rename e w src dst =
     (case files w src of
        None \<Rightarrow> Inl FileNotFoundError
      | Some n \<Rightarrow>
          if windows e \<and> files w dst \<noteq> None then Inl FileExistsError
          else Inr (w\<lparr>files := ((files w)(src := None))(dst \<mapsto> n)\<rparr>))"

section \<open>The compressor\<close>

datatype level = Low | Medium | High | Maximum

record compressor =
  compression_level :: level
  target_size_bytes :: "int option"

text \<open>\<open>COMPRESSION_LEVELS[level]['remove_duplicates']\<close>.\<close>

fun remove_duplicates :: "level \<Rightarrow> bool" where
  "remove_duplicates Low = False"
| "remove_duplicates Medium = True"
| "remove_duplicates High = True"
| "remove_duplicates Maximum = True"

fun gs_settings :: "level \<Rightarrow> string" where
  "gs_settings Low = ''/ebook''"
| "gs_settings Medium = ''/printer''"
| "gs_settings High = ''/prepress''"
| "gs_settings Maximum = ''/screen''"

text \<open>
  The choice of the executable, the same in both Ghostscript methods. \<open>None\<close>: a probe
  raised an exception other than CalledProcessError and FileNotFoundError, which leaves
  the method through its \<open>except Exception\<close>.
\<close>

definition gs_executable :: "env \<Rightarrow> string option" where
  "gs_executable e =
     (if windows e then
        (case probe e ''gswin64c'' of
           ProbeOk \<Rightarrow> Some ''gswin64c''
         | ProbeRaised \<Rightarrow> None
         | _ \<Rightarrow>
            (case probe e ''gswin32c'' of
               ProbeOk \<Rightarrow> Some ''gswin32c''
             | ProbeRaised \<Rightarrow> None
             | _ \<Rightarrow> Some ''gs''))
      else Some ''gs'')"

text \<open>
  Running the command and reading the result: True exactly for return code 0, False for
  every other code and for every exception. Whatever the process left at its output path
  stays there, also when the call raised after the process had written it.
\<close>

definition leave :: "world \<Rightarrow> path \<Rightarrow> nat option \<Rightarrow> world" where
  "leave w p written =
     (case written of
        None \<Rightarrow> w
      | Some n \<Rightarrow> w\<lparr>files := (files w)(p \<mapsto> n)\<rparr>)"

definition run_cmd :: "env \<Rightarrow> world \<Rightarrow> gs_cmd \<Rightarrow> world \<times> bool" where
  "run_cmd e w cmd =
     (case engine e w cmd of
        Completed rc written \<Rightarrow> (leave w (output_file cmd) written, rc = 0)
      | ExeNotFound \<Rightarrow> (w, False)
      | RunRaised written \<Rightarrow> (leave w (output_file cmd) written, False))"

text \<open>
  The three methods. Each one adds its entry to the trace, and each one turns every
  exception into the result False. Without the library the names \<open>PdfReader\<close> and
  \<open>PdfWriter\<close> are unbound, and \<open>compress_with_pypdf\<close> returns False through its
  handler; it does the same when the input cannot be opened.
\<close>

definition compress_with_pypdf ::
  "env \<Rightarrow> compressor \<Rightarrow> world \<Rightarrow> path \<Rightarrow> path \<Rightarrow> world \<times> bool" where
  "compress_with_pypdf e self w input_path output_path =
     (let w0 = w\<lparr>calls := calls w @ [PyPDF input_path output_path]\<rparr>
      in if \<not> PYPDF_AVAILABLE e then (w0, False)
         else if files w0 input_path = None then (w0, False)
         else
           (case pypdf e w0 input_path output_path
                   (remove_duplicates (compression_level self)) of
              LibWritten n \<Rightarrow> (w0\<lparr>files := (files w0)(output_path \<mapsto> n)\<rparr>, True)
            | LibRaised None \<Rightarrow> (w0, False)
            | LibRaised (Some n) \<Rightarrow> (w0\<lparr>files := (files w0)(output_path \<mapsto> n)\<rparr>, False)))"

definition compress_with_ghostscript ::
  "env \<Rightarrow> compressor \<Rightarrow> world \<Rightarrow> path \<Rightarrow> path \<Rightarrow> string option \<Rightarrow> world \<times> bool" where
  "compress_with_ghostscript e self w input_path output_path override_quality =
     (let gs_quality =
            (case override_quality of
               Some q \<Rightarrow> q
             | None \<Rightarrow> gs_settings (compression_level self));
          w0 = w\<lparr>calls := calls w @ [Ghostscript input_path output_path gs_quality]\<rparr>
      in case gs_executable e of
           None \<Rightarrow> (w0, False)
         | Some exe \<Rightarrow>
             run_cmd e w0
               \<lparr>executable = exe, pdfsettings = gs_quality, image_settings = None,
                output_file = output_path, input_file = input_path\<rparr>)"

definition compress_with_ghostscript_advanced ::
  "env \<Rightarrow> world \<Rightarrow> path \<Rightarrow> path \<Rightarrow> string \<Rightarrow> int \<Rightarrow> int \<Rightarrow> world \<times> bool" where
  "compress_with_ghostscript_advanced e w input_path output_path preset image_dpi jpeg_quality =
     (let w0 = w\<lparr>calls := calls w @
                 [GhostscriptAdvanced input_path output_path preset image_dpi jpeg_quality]\<rparr>
      in case gs_executable e of
           None \<Rightarrow> (w0, False)
         | Some exe \<Rightarrow>
             run_cmd e w0
               \<lparr>executable = exe, pdfsettings = preset,
                image_settings = Some (image_dpi, image_dpi, image_dpi * 2, jpeg_quality),
                output_file = output_path, input_file = input_path\<rparr>)"

text \<open>The table of \<open>compress_file\<close>: preset, description, image DPI, JPEG quality.\<close>

definition configs :: "(string \<times> string \<times> int \<times> int) list" where
  "configs =
     [(''/prepress'', ''high quality'', 300, 90),
      (''/printer'', ''good quality'', 200, 80),
      (''/printer'', ''balanced'', 150, 75),
      (''/ebook'', ''compact'', 150, 70),
      (''/screen'', ''minimal'', 100, 60)]"

definition temp_path :: "path \<Rightarrow> path" where
  "temp_path output_path = joinpath (parent output_path) (''temp_'' @ name output_path)"

text \<open>
  The \<open>for\<close> loop over the table. The result is the world and the flag \<open>success\<close>.
  An exception inside the \<open>try\<close> (from \<open>stat\<close> or from \<open>rename\<close>) removes the temporary file
  and goes on with the next configuration; a method that returns False goes on at once.
\<close>

fun search_configs ::
  "env \<Rightarrow> world \<Rightarrow> path \<Rightarrow> path \<Rightarrow> int \<Rightarrow> (string \<times> string \<times> int \<times> int) list
     \<Rightarrow> world \<times> bool" where
  "search_configs e w input_path output_path target [] = (w, False)"
| "search_configs e w input_path output_path target ((preset, desc, dpi, jpeg_q) # rest) =
     (let temp_output = temp_path output_path
      in case compress_with_ghostscript_advanced e w input_path temp_output preset dpi jpeg_q of
           (w1, ok) \<Rightarrow>
             if ok then
               if exists_path w1 temp_output then
                 (case get_file_size w1 temp_output of
                    Inl err \<Rightarrow>
                      search_configs e (unlink w1 temp_output) input_path output_path target rest
                  | Inr sz \<Rightarrow>
                      if int sz \<le> target then
                        (case rename e w1 temp_output output_path of
                           Inl err \<Rightarrow>
                             search_configs e (unlink w1 temp_output) input_path output_path
                               target rest
                         | Inr w2 \<Rightarrow> (w2, True))
                      else
                        search_configs e (unlink w1 temp_output) input_path output_path
                          target rest)
               else search_configs e w1 input_path output_path target rest
             else search_configs e w1 input_path output_path target rest)"

text \<open>The branch of \<open>compress_file\<close> for a target size: the loop, then the fallback.\<close>

definition target_size_search ::
  "env \<Rightarrow> compressor \<Rightarrow> world \<Rightarrow> path \<Rightarrow> path \<Rightarrow> int \<Rightarrow> world \<times> bool" where
  "target_size_search e self w input_path output_path target =
     (case search_configs e w input_path output_path target configs of
        (w1, success) \<Rightarrow>
          if \<not> success then
            compress_with_ghostscript e self w1 input_path output_path (Some ''/screen'')
          else (w1, True))"

text \<open>The branch without a target size: Ghostscript, and the library if that fails.\<close>

definition single_shot ::
  "env \<Rightarrow> compressor \<Rightarrow> world \<Rightarrow> path \<Rightarrow> path \<Rightarrow> world \<times> bool" where
  "single_shot e self w input_path output_path =
     (case compress_with_ghostscript e self w input_path output_path None of
        (w1, ok) \<Rightarrow>
          if ok then (w1, True)
          else if PYPDF_AVAILABLE e then compress_with_pypdf e self w1 input_path output_path
          else (w1, False))"

definition compress_file ::
  "env \<Rightarrow> compressor \<Rightarrow> world \<Rightarrow> path \<Rightarrow> path option \<Rightarrow> world \<times> (error + bool \<times> path)" where
  "compress_file e self w input_path output_path_arg =
     (if \<not> exists_path w input_path then (w, Inr (False, input_path))
      else if \<not> lower (suffix input_path) = ''.pdf'' then (w, Inr (False, input_path))
      else
        let output_path =
              (case output_path_arg of
                 None \<Rightarrow> joinpath (parent input_path) (stem input_path @ ''_compressed.pdf'')
               | Some p \<Rightarrow> p)
        in case get_file_size w input_path of
             Inl err \<Rightarrow> (w, Inl err)
           | Inr original_size \<Rightarrow>
               (case (case target_size_bytes self of
                        Some target \<Rightarrow> target_size_search e self w input_path output_path target
                      | None \<Rightarrow> single_shot e self w input_path output_path) of
                  (w1, success) \<Rightarrow>
                    if success \<and> exists_path w1 output_path then
                      (case get_file_size w1 output_path of
                         Inl err \<Rightarrow> (w1, Inl err)
                       | Inr compressed_size \<Rightarrow>
                           if original_size = 0 then (w1, Inl ZeroDivisionError)
                           else (w1, Inr (True, output_path)))
                    else (w1, Inr (False, input_path))))"

text \<open>
  \<open>compress_batch\<close>: the loop over the inputs, with the results collected so far. An
  exception of \<open>compress_file\<close> is not caught here: it ends the loop.
\<close>

fun compress_batch_loop ::
  "env \<Rightarrow> compressor \<Rightarrow> world \<Rightarrow> path list \<Rightarrow> path option \<Rightarrow> (bool \<times> path \<times> path) list
     \<Rightarrow> world \<times> (error + (bool \<times> path \<times> path) list)" where
  "compress_batch_loop e self w [] output_dir results = (w, Inr results)"
| "compress_batch_loop e self w (input_path # rest) output_dir results =
     (let output_path =
            (case output_dir of
               Some d \<Rightarrow> Some (joinpath d (stem input_path @ ''_compressed.pdf''))
             | None \<Rightarrow> None)
      in case compress_file e self w input_path output_path of
           (w1, Inl err) \<Rightarrow> (w1, Inl err)
         | (w1, Inr (success, final_output_path)) \<Rightarrow>
             compress_batch_loop e self w1 rest output_dir
               (results @ [(success, input_path, final_output_path)]))"

definition compress_batch ::
  "env \<Rightarrow> compressor \<Rightarrow> world \<Rightarrow> path list \<Rightarrow> path option
     \<Rightarrow> world \<times> (error + (bool \<times> path \<times> path) list)" where
  "compress_batch e self w input_paths output_dir =
     compress_batch_loop e self w input_paths output_dir []"

section \<open>The command line\<close>

text \<open>
  A Python float (binary64) as \<open>argparse\<close> returns it: a finite value, an infinity or a
  NaN. \<open>float_max\<close> is \<open>sys.float_info.max\<close>, the largest finite value.
\<close>

datatype pyfloat = Finite rat | Infinite | NaN

definition float_max :: rat where
  "float_max = (2 ^ 53 - 1) * 2 ^ 971"

fun truthy :: "pyfloat \<Rightarrow> bool" where
  "truthy (Finite r) = (r \<noteq> 0)"
| "truthy Infinite = True"
| "truthy NaN = True"

text \<open>
  The product of a float and the integer 1024, the only factor the program uses. For a
  binary64 value the product with a power of two is exact while its magnitude stays
  within \<open>float_max\<close>; beyond that the product is an infinity.
\<close>

fun times_int :: "pyfloat \<Rightarrow> int \<Rightarrow> pyfloat" where
  "times_int (Finite r) k =
     (if float_max < \<bar>r * of_int k\<bar> then Infinite else Finite (r * of_int k))"
| "times_int Infinite k = Infinite"
| "times_int NaN k = NaN"

text \<open>\<open>int(x)\<close> truncates towards zero and raises on an infinity and on a NaN.\<close>

fun py_int :: "pyfloat \<Rightarrow> error + int" where
  "py_int (Finite r) = Inr (if 0 \<le> r then \<lfloor>r\<rfloor> else \<lceil>r\<rceil>)"
| "py_int Infinite = Inl OverflowError"
| "py_int NaN = Inl ValueError"

record args =
  "output" :: "path option"
  output_dir :: "path option"
  quality :: level
  target_size_mb :: "pyfloat option"

text \<open>\<open>int(args.target_size_mb * 1024 * 1024) if getattr(args, 'target_size_mb', None) else None\<close>.\<close>

definition target_bytes :: "args \<Rightarrow> error + int option" where
  "target_bytes a =
     (case target_size_mb a of
        None \<Rightarrow> Inr None
      | Some mb \<Rightarrow>
          if truthy mb then
            (case py_int (times_int (times_int mb 1024) 1024) of
               Inl err \<Rightarrow> Inl err
             | Inr n \<Rightarrow> Inr (Some n))
          else Inr None)"

text \<open>How the process ends: \<open>sys.exit(code)\<close>, or an exception that nothing catches.\<close>

datatype ending = SysExit nat | Traceback error

text \<open>
  \<open>main\<close>, from the parsed arguments and the list \<open>input_files\<close> that
  \<open>expand_file_patterns\<close> returns (it exits with status 1 when the list is empty).
  \<open>check_dependencies\<close> exits with status 1 when the PDF library is missing.
\<close>

definition main :: "env \<Rightarrow> world \<Rightarrow> args \<Rightarrow> path list \<Rightarrow> world \<times> ending" where
  "main e w a input_files =
     (if \<not> PYPDF_AVAILABLE e then (w, SysExit 1)
      else if input_files = [] then (w, SysExit 1)
      else if length input_files > 1 \<and> output a \<noteq> None then (w, SysExit 1)
      else
        case target_bytes a of
          Inl err \<Rightarrow> (w, Traceback err)
        | Inr tb \<Rightarrow>
            let compressor = \<lparr>compression_level = quality a, target_size_bytes = tb\<rparr>
            in if length input_files = 1 then
                 (let input_file = hd input_files;
                      output_file =
                        (case output_dir a of
                           Some d \<Rightarrow> Some (joinpath d (stem input_file @ ''_compressed.pdf''))
                         | None \<Rightarrow> output a)
                  in case compress_file e compressor w input_file output_file of
                       (w1, Inl err) \<Rightarrow> (w1, SysExit 1)
                     | (w1, Inr (success, output_path)) \<Rightarrow>
                         (w1, SysExit (if success then 0 else 1)))
               else
                 (case compress_batch e compressor w input_files (output_dir a) of
                    (w1, Inl err) \<Rightarrow> (w1, SysExit 1)
                  | (w1, Inr results) \<Rightarrow>
                      let failed_files = [input_path. (success, input_path, _) \<leftarrow> results,
                                          \<not> success]
                      in (w1, SysExit (if failed_files \<noteq> [] then 1 else 0))))"

section \<open>Vocabulary of the statements\<close>

text \<open>
  The trace entry of one row of the table, and the two numbers of a row.
\<close>

definition config_call :: "path \<Rightarrow> path \<Rightarrow> string \<times> string \<times> int \<times> int \<Rightarrow> call" where
  "config_call input_path output_path cfg =
     (case cfg of (preset, desc, dpi, jpeg_q) \<Rightarrow>
        GhostscriptAdvanced input_path (temp_path output_path) preset dpi jpeg_q)"

definition config_dpi :: "string \<times> string \<times> int \<times> int \<Rightarrow> int" where
  "config_dpi cfg = (case cfg of (preset, desc, dpi, jpeg_q) \<Rightarrow> dpi)"

definition config_jpeg_q :: "string \<times> string \<times> int \<times> int \<Rightarrow> int" where
  "config_jpeg_q cfg = (case cfg of (preset, desc, dpi, jpeg_q) \<Rightarrow> jpeg_q)"

text \<open>
  The paths a trace entry reads and writes.
\<close>

fun call_input :: "call \<Rightarrow> path" where
  "call_input (Ghostscript i out q) = i"
| "call_input (GhostscriptAdvanced i out p d q) = i"
| "call_input (PyPDF i out) = i"

fun call_output :: "call \<Rightarrow> path" where
  "call_output (Ghostscript i out q) = out"
| "call_output (GhostscriptAdvanced i out p d q) = out"
| "call_output (PyPDF i out) = out"

text \<open>
  What the external process of one invocation leaves at its output path, whether the
  process ended with code 0, with another code, or the call raised after it: \<open>None\<close> when
  it left nothing, or when no process ran. \<open>invoke\<close> is the method that a trace entry
  stands for.
\<close>

fun left_by :: "run_result \<Rightarrow> nat option" where
  "left_by (Completed rc written) = written"
| "left_by ExeNotFound = None"
| "left_by (RunRaised written) = written"

definition process_left :: "env \<Rightarrow> world \<Rightarrow> call \<Rightarrow> nat option" where
  "process_left e w c =
     (case gs_executable e of
        None \<Rightarrow> None
      | Some exe \<Rightarrow>
          (case c of
             Ghostscript i out q \<Rightarrow>
               left_by (engine e (w\<lparr>calls := calls w @ [c]\<rparr>)
                 \<lparr>executable = exe, pdfsettings = q, image_settings = None,
                  output_file = out, input_file = i\<rparr>)
           | GhostscriptAdvanced i out p d q \<Rightarrow>
               left_by (engine e (w\<lparr>calls := calls w @ [c]\<rparr>)
                 \<lparr>executable = exe, pdfsettings = p,
                  image_settings = Some (d, d, d * 2, q),
                  output_file = out, input_file = i\<rparr>)
           | PyPDF i out \<Rightarrow> None))"

fun invoke :: "env \<Rightarrow> compressor \<Rightarrow> world \<Rightarrow> call \<Rightarrow> world \<times> bool" where
  "invoke e self w (Ghostscript i out q) = compress_with_ghostscript e self w i out (Some q)"
| "invoke e self w (GhostscriptAdvanced i out p d q) =
     compress_with_ghostscript_advanced e w i out p d q"
| "invoke e self w (PyPDF i out) = compress_with_pypdf e self w i out"

text \<open>
  An assumption on the external process, made only where a statement names it: every
  run that the methods report as failed (a non-zero code, or an exception of the call)
  has left no file at its output path.
\<close>

definition leaves_nothing_on_failure :: "env \<Rightarrow> bool" where
  "leaves_nothing_on_failure e =
     (\<forall>w cmd n. (\<forall>rc. engine e w cmd = Completed rc (Some n) \<longrightarrow> rc = 0)
        \<and> engine e w cmd \<noteq> RunRaised (Some n))"

text \<open>
  The output path of the single job of \<open>main\<close>, and the output argument that
  \<open>compress_batch\<close> hands to \<open>compress_file\<close>.
\<close>

definition resolved_output :: "args \<Rightarrow> path \<Rightarrow> path" where
  "resolved_output a f =
     (case output_dir a of
        Some d \<Rightarrow> joinpath d (stem f @ ''_compressed.pdf'')
      | None \<Rightarrow>
          (case output a of
             Some p \<Rightarrow> p
           | None \<Rightarrow> joinpath (parent f) (stem f @ ''_compressed.pdf'')))"

definition batch_output :: "path option \<Rightarrow> path \<Rightarrow> path option" where
  "batch_output d x =
     (case d of Some dir \<Rightarrow> Some (joinpath dir (stem x @ ''_compressed.pdf'')) | None \<Rightarrow> None)"

section \<open>Scenarios\<close>

text \<open>
  Concrete inputs for the examples below: input files and an output path, external
  processes with a fixed behaviour, the two platforms, and parsed command lines. The
  PDF library raises in these environments unless \<open>with_library\<close> replaces it.
\<close>

definition doc :: path where "doc = Path [] [''doc.pdf'']"

definition out_pdf :: path where "out_pdf = Path [] [''out.pdf'']"

definition empty_pdf :: path where "empty_pdf = Path [] [''empty.pdf'']"

definition second_pdf :: path where "second_pdf = Path [] [''second.pdf'']"

definition third_pdf :: path where "third_pdf = Path [] [''third.pdf'']"

definition batch_paths :: "path list" where
  "batch_paths = [empty_pdf, second_pdf, third_pdf]"

definition engine_by_dpi :: "world \<Rightarrow> gs_cmd \<Rightarrow> run_result" where
  "engine_by_dpi w cmd =
     (case image_settings cmd of
        Some (dpi, others) \<Rightarrow> Completed 0 (Some (nat dpi))
      | None \<Rightarrow> Completed 0 (Some 40))"

definition engine_const :: "run_result \<Rightarrow> world \<Rightarrow> gs_cmd \<Rightarrow> run_result" where
  "engine_const r w cmd = r"

definition engine_two :: "run_result \<Rightarrow> run_result \<Rightarrow> world \<Rightarrow> gs_cmd \<Rightarrow> run_result" where
  "engine_two advanced basic w cmd =
     (case image_settings cmd of Some s \<Rightarrow> advanced | None \<Rightarrow> basic)"

definition engine_screen_fails :: "world \<Rightarrow> gs_cmd \<Rightarrow> run_result" where
  "engine_screen_fails w cmd =
     (case image_settings cmd of
        None \<Rightarrow> Completed 0 (Some 60)
      | Some s \<Rightarrow> if pdfsettings cmd = ''/screen'' then Completed 1 (Some 7)
                  else Completed 0 (Some 900))"

definition engine_fails_on :: "path \<Rightarrow> world \<Rightarrow> gs_cmd \<Rightarrow> run_result" where
  "engine_fails_on p w cmd =
     (if input_file cmd = p then Completed 1 None else Completed 0 (Some 40))"

definition engine_partial_then_silent :: "world \<Rightarrow> gs_cmd \<Rightarrow> run_result" where
  "engine_partial_then_silent w cmd =
     (if pdfsettings cmd = ''/prepress'' then Completed 1 (Some 7) else Completed 0 None)"

definition huge_mb :: rat where
  "huge_mb = 2 ^ 1023"

definition posix_env :: "(world \<Rightarrow> gs_cmd \<Rightarrow> run_result) \<Rightarrow> env" where
  "posix_env eng =
     \<lparr>windows = False, probe = (\<lambda>exe. ProbeFileNotFound), engine = eng,
      PYPDF_AVAILABLE = True, pypdf = (\<lambda>w i out dup. LibRaised None)\<rparr>"

definition windows_env :: "(world \<Rightarrow> gs_cmd \<Rightarrow> run_result) \<Rightarrow> env" where
  "windows_env eng =
     \<lparr>windows = True, probe = (\<lambda>exe. if exe = ''gswin64c'' then ProbeOk else ProbeFileNotFound),
      engine = eng, PYPDF_AVAILABLE = True, pypdf = (\<lambda>w i out dup. LibRaised None)\<rparr>"

definition with_library :: "nat \<Rightarrow> env \<Rightarrow> env" where
  "with_library n e = e\<lparr>pypdf := (\<lambda>w i out dup. LibWritten n)\<rparr>"

definition fresh_world :: "nat \<Rightarrow> world" where
  "fresh_world n = \<lparr>files = [doc \<mapsto> n], calls = []\<rparr>"

definition rerun_world :: world where
  "rerun_world = \<lparr>files = [doc \<mapsto> 1000, out_pdf \<mapsto> 500], calls = []\<rparr>"

definition batch_world :: "nat \<Rightarrow> world" where
  "batch_world n = \<lparr>files = [empty_pdf \<mapsto> n, second_pdf \<mapsto> 2000, third_pdf \<mapsto> 3000], calls = []\<rparr>"

definition with_target :: "int \<Rightarrow> compressor" where
  "with_target t = \<lparr>compression_level = Medium, target_size_bytes = Some t\<rparr>"

definition no_target :: "level \<Rightarrow> compressor" where
  "no_target lv = \<lparr>compression_level = lv, target_size_bytes = None\<rparr>"

definition args_with_target :: "pyfloat option \<Rightarrow> args" where
  "args_with_target mb =
     \<lparr>output = Some out_pdf, output_dir = None, quality = Medium, target_size_mb = mb\<rparr>"

definition batch_args :: args where
  "batch_args = \<lparr>output = None, output_dir = None, quality = Medium, target_size_mb = None\<rparr>"

section \<open>Traces and frames of the methods\<close>

lemma temp_path_neq: "temp_path out \<noteq> out"
  by (cases out) (auto simp: temp_path_def joinpath_def parent_def name_def
      dest: arg_cong[where f = length] arg_cong[where f = last])

lemma run_cmd_calls: "calls (fst (run_cmd e w c)) = calls w"
  by (simp add: run_cmd_def leave_def split: run_result.splits option.splits)

lemma run_cmd_files_other:
  "p \<noteq> output_file c \<Longrightarrow> files (fst (run_cmd e w c)) p = files w p"
  by (simp add: run_cmd_def leave_def split: run_result.splits option.splits)

lemma gsa_calls:
  "calls (fst (compress_with_ghostscript_advanced e w i out pr d q)) =
     calls w @ [GhostscriptAdvanced i out pr d q]"
  by (simp add: compress_with_ghostscript_advanced_def Let_def run_cmd_calls split: option.splits)

lemma gsa_files_other:
  "p \<noteq> out \<Longrightarrow> files (fst (compress_with_ghostscript_advanced e w i out pr d q)) p = files w p"
  by (simp add: compress_with_ghostscript_advanced_def Let_def run_cmd_files_other
      split: option.splits)

lemma gs_calls:
  "calls (fst (compress_with_ghostscript e self w i out ov)) =
     calls w @ [Ghostscript i out (case ov of Some q \<Rightarrow> q | None \<Rightarrow> gs_settings (compression_level self))]"
  by (simp add: compress_with_ghostscript_def Let_def run_cmd_calls split: option.splits)

lemma gs_files_other:
  "p \<noteq> out \<Longrightarrow> files (fst (compress_with_ghostscript e self w i out ov)) p = files w p"
  by (simp add: compress_with_ghostscript_def Let_def run_cmd_files_other
      split: option.splits)

lemma pypdf_calls:
  "calls (fst (compress_with_pypdf e self w i out)) = calls w @ [PyPDF i out]"
  by (simp add: compress_with_pypdf_def Let_def split: lib_result.splits option.splits)

lemma pypdf_files_other:
  "p \<noteq> out \<Longrightarrow> files (fst (compress_with_pypdf e self w i out)) p = files w p"
  by (simp add: compress_with_pypdf_def Let_def split: lib_result.splits option.splits)

lemma unlink_calls: "calls (unlink w p) = calls w"
  by (simp add: unlink_def)

lemma rename_calls: "rename e w a b = Inr w' \<Longrightarrow> calls w' = calls w"
  by (auto simp: rename_def split: option.splits if_splits)

lemma run_cmd_failure_files:
  "leaves_nothing_on_failure e \<Longrightarrow> \<not> snd (run_cmd e w c) \<Longrightarrow> files (fst (run_cmd e w c)) = files w"
  by (auto simp: run_cmd_def leave_def leaves_nothing_on_failure_def
      split: run_result.splits option.splits)

lemma gsa_failure_files:
  "leaves_nothing_on_failure e \<Longrightarrow>
   \<not> snd (compress_with_ghostscript_advanced e w i out pr d q) \<Longrightarrow>
   files (fst (compress_with_ghostscript_advanced e w i out pr d q)) = files w"
  by (auto simp: compress_with_ghostscript_advanced_def Let_def
      dest: run_cmd_failure_files split: option.splits)

lemma gs_failure_files:
  "leaves_nothing_on_failure e \<Longrightarrow>
   \<not> snd (compress_with_ghostscript e self w i out ov) \<Longrightarrow>
   files (fst (compress_with_ghostscript e self w i out ov)) = files w"
  by (auto simp: compress_with_ghostscript_def Let_def
      dest: run_cmd_failure_files split: option.splits)

lemma run_cmd_keeps: "files (fst (run_cmd e w c)) p = None \<Longrightarrow> files w p = None"
  by (auto simp: run_cmd_def leave_def split: run_result.splits option.splits if_splits)

lemma gsa_keeps:
  "files (fst (compress_with_ghostscript_advanced e w i out pr d q)) p = None \<Longrightarrow> files w p = None"
  by (auto simp: compress_with_ghostscript_advanced_def Let_def dest: run_cmd_keeps
      split: option.splits)

lemma gs_keeps:
  "files (fst (compress_with_ghostscript e self w i out ov)) p = None \<Longrightarrow> files w p = None"
  by (auto simp: compress_with_ghostscript_def Let_def dest: run_cmd_keeps split: option.splits)

lemma run_cmd_files:
  "files (fst (run_cmd e w c)) p =
     (if p = output_file c
      then (case left_by (engine e w c) of Some n \<Rightarrow> Some n | None \<Rightarrow> files w p)
      else files w p)"
  by (simp add: run_cmd_def leave_def split: run_result.splits option.splits)

lemma gsa_files_out:
  "files (fst (compress_with_ghostscript_advanced e w i out pr d q)) out =
     (case process_left e w (GhostscriptAdvanced i out pr d q) of
        Some n \<Rightarrow> Some n
      | None \<Rightarrow> files w out)"
  by (simp add: compress_with_ghostscript_advanced_def process_left_def Let_def run_cmd_files
      split: option.splits)

lemma gs_files_out:
  "files (fst (compress_with_ghostscript e self w i out ov)) out =
     (case process_left e w
             (Ghostscript i out
                (case ov of Some q \<Rightarrow> q | None \<Rightarrow> gs_settings (compression_level self))) of
        Some n \<Rightarrow> Some n
      | None \<Rightarrow> files w out)"
  by (simp add: compress_with_ghostscript_def process_left_def Let_def run_cmd_files
      split: option.splits)

lemma float_max_less: "float_max < 2 ^ 1024"
proof -
  have "float_max < 2 ^ 53 * 2 ^ 971"
    unfolding float_max_def by (intro mult_strict_right_mono) simp_all
  also have "(2 ^ 53 * 2 ^ 971 :: rat) = 2 ^ 1024"
    by (simp add: power_add[symmetric])
  finally show ?thesis .
qed

lemma float_max_ge: "2 ^ 971 \<le> float_max"
proof -
  have "(1 :: rat) * 2 ^ 971 \<le> (2 ^ 53 - 1) * 2 ^ 971"
    by (intro mult_right_mono) simp_all
  then show ?thesis by (simp add: float_max_def)
qed

lemma huge_mb_finite: "huge_mb \<noteq> 0 \<and> \<bar>huge_mb\<bar> \<le> float_max"
proof -
  have "(2 ^ 1023 :: rat) = 2 ^ 52 * 2 ^ 971" by (simp add: power_add[symmetric])
  also have "\<dots> \<le> (2 ^ 53 - 1) * 2 ^ 971"
    by (intro mult_right_mono) simp_all
  finally show ?thesis by (simp add: float_max_def huge_mb_def)
qed

lemma huge_mb_overflows: "times_int (Finite huge_mb) 1024 = Infinite"
proof -
  have "(2 ^ 1023 * 1024 :: rat) = 2 ^ 1023 * 2 ^ 10" by simp
  also have "\<dots> = 2 ^ 1033" by (simp add: power_add[symmetric])
  finally have e: "(2 ^ 1023 * 1024 :: rat) = 2 ^ 1033" .
  have "float_max < 2 ^ 1033"
    using float_max_less power_increasing[of 1024 1033 "2 :: rat"] by simp
  then show ?thesis by (simp add: e huge_mb_def)
qed

lemma name_stem_suffix: "name p = stem p @ suffix p"
  by (simp add: stem_def suffix_def Let_def)

section \<open>The loop over the table\<close>

lemma search_calls_prefix:
  "\<exists>k\<le>length cfgs. calls (fst (search_configs e w i out t cfgs)) =
       calls w @ map (config_call i out) (take k cfgs)"
proof (induction cfgs arbitrary: w)
  case Nil
  then show ?case by simp
next
  case (Cons c cfgs)
  obtain pr ds d q where c: "c = (pr, ds, d, q)" by (cases c) auto
  obtain w1 ok where r: "compress_with_ghostscript_advanced e w i (temp_path out) pr d q = (w1, ok)"
    by (cases "compress_with_ghostscript_advanced e w i (temp_path out) pr d q") auto
  have cw1: "calls w1 = calls w @ [config_call i out c]"
    using gsa_calls[of e w i "temp_path out" pr d q] r by (simp add: c config_call_def)
  have step: "\<exists>k\<le>length (c # cfgs). calls (fst (search_configs e w' i out t cfgs)) =
       calls w @ map (config_call i out) (take k (c # cfgs))" if "calls w' = calls w1" for w'
  proof -
    from Cons.IH[of w'] obtain k where "k \<le> length cfgs"
      "calls (fst (search_configs e w' i out t cfgs)) = calls w' @ map (config_call i out) (take k cfgs)"
      by blast
    then show ?thesis using that cw1 by (intro exI[of _ "Suc k"]) simp
  qed
  have stop: "\<exists>k\<le>length (c # cfgs). calls w' =
       calls w @ map (config_call i out) (take k (c # cfgs))" if "calls w' = calls w1" for w'
    using that cw1 by (intro exI[of _ "Suc 0"]) simp
  show ?case
    using step[of w1] step[of "unlink w1 (temp_path out)"] stop
    by (auto simp: c r Let_def unlink_calls split: sum.splits dest: rename_calls simp del: take_Suc_Cons)
qed

lemma search_append:
  "search_configs e w i out t (pre @ post) =
     (if snd (search_configs e w i out t pre) then search_configs e w i out t pre
      else search_configs e (fst (search_configs e w i out t pre)) i out t post)"
proof (induction pre arbitrary: w)
  case Nil
  then show ?case by simp
next
  case (Cons c pre)
  obtain pr ds d q where c: "c = (pr, ds, d, q)" by (cases c) auto
  show ?case
    by (simp add: c Let_def Cons.IH split: prod.splits sum.splits)
qed

lemma search_rejected_calls:
  "\<not> snd (search_configs e w i out t cfgs) \<Longrightarrow>
     calls (fst (search_configs e w i out t cfgs)) = calls w @ map (config_call i out) cfgs"
proof (induction cfgs arbitrary: w)
  case Nil
  then show ?case by simp
next
  case (Cons c cfgs)
  obtain pr ds d q where c: "c = (pr, ds, d, q)" by (cases c) auto
  obtain w1 ok where r: "compress_with_ghostscript_advanced e w i (temp_path out) pr d q = (w1, ok)"
    by (cases "compress_with_ghostscript_advanced e w i (temp_path out) pr d q") auto
  have cw1: "calls w1 = calls w @ [config_call i out c]"
    using gsa_calls[of e w i "temp_path out" pr d q] r by (simp add: c config_call_def)
  show ?case
    using Cons.prems Cons.IH[of w1] Cons.IH[of "unlink w1 (temp_path out)"] cw1
    by (auto simp: c r Let_def unlink_calls split: sum.splits if_splits)
qed

lemma search_rejected_files:
  "\<not> snd (search_configs e w i out t cfgs) \<Longrightarrow> p \<noteq> temp_path out \<Longrightarrow>
     files (fst (search_configs e w i out t cfgs)) p = files w p"
proof (induction cfgs arbitrary: w)
  case Nil
  then show ?case by simp
next
  case (Cons c cfgs)
  obtain pr ds d q where c: "c = (pr, ds, d, q)" by (cases c) auto
  obtain w1 ok where r: "compress_with_ghostscript_advanced e w i (temp_path out) pr d q = (w1, ok)"
    by (cases "compress_with_ghostscript_advanced e w i (temp_path out) pr d q") auto
  have fw1: "files w1 p = files w p"
    using gsa_files_other[of p "temp_path out" e w i pr d q] r Cons.prems(2) by simp
  have fu: "files (unlink w1 (temp_path out)) p = files w p"
    using fw1 Cons.prems(2) by (simp add: unlink_def)
  show ?case
    using Cons.prems Cons.IH[of w1] Cons.IH[of "unlink w1 (temp_path out)"] fw1 fu
    by (auto simp: c r Let_def split: sum.splits if_splits)
qed

lemma search_accept_head:
  assumes "snd (compress_with_ghostscript_advanced e w i (temp_path out) pr d q)"
    and "files (fst (compress_with_ghostscript_advanced e w i (temp_path out) pr d q)) (temp_path out) = Some sz"
    and "int sz \<le> t"
    and "\<not> windows e \<or> files (fst (compress_with_ghostscript_advanced e w i (temp_path out) pr d q)) out = None"
  shows "search_configs e w i out t ((pr, ds, d, q) # post) =
     ((fst (compress_with_ghostscript_advanced e w i (temp_path out) pr d q))
        \<lparr>files := ((files (fst (compress_with_ghostscript_advanced e w i (temp_path out) pr d q)))
                     (temp_path out := None))(out \<mapsto> sz)\<rparr>, True)"
  using assms
  by (cases "compress_with_ghostscript_advanced e w i (temp_path out) pr d q")
     (auto simp: Let_def exists_path_def get_file_size_def rename_def)

lemma search_accept_split:
  "snd (search_configs e w i out t cfgs) \<Longrightarrow>
     \<exists>pre c post. cfgs = pre @ c # post
       \<and> \<not> snd (search_configs e w i out t pre)
       \<and> snd (search_configs e (fst (search_configs e w i out t pre)) i out t [c])
       \<and> search_configs e w i out t cfgs =
           search_configs e (fst (search_configs e w i out t pre)) i out t [c]"
proof (induction cfgs arbitrary: w)
  case Nil
  then show ?case by simp
next
  case (Cons c cfgs)
  show ?case
  proof (cases "snd (search_configs e w i out t [c])")
    case True
    have "search_configs e w i out t (c # cfgs) = search_configs e w i out t [c]"
      using True search_append[of e w i out t "[c]" cfgs] by simp
    then show ?thesis
      using True by (intro exI[of _ "[]"] exI[of _ c] exI[of _ cfgs]) simp
  next
    case False
    then obtain w' where one: "search_configs e w i out t [c] = (w', False)"
      by (cases "search_configs e w i out t [c]") auto
    have step: "search_configs e w i out t (c # xs) = search_configs e w' i out t xs" for xs
      using search_append[of e w i out t "[c]" xs] by (simp add: one)
    from Cons.prems have "snd (search_configs e w' i out t cfgs)"
      by (simp add: step)
    from Cons.IH[OF this] obtain pre c' post where p: "cfgs = pre @ c' # post"
      "\<not> snd (search_configs e w' i out t pre)"
      "snd (search_configs e (fst (search_configs e w' i out t pre)) i out t [c'])"
      "search_configs e w' i out t cfgs =
         search_configs e (fst (search_configs e w' i out t pre)) i out t [c']"
      by blast
    have k: "search_configs e w i out t (c # pre) = search_configs e w' i out t pre"
      by (rule step)
    have "c # cfgs = (c # pre) @ c' # post" using p(1) by simp
    moreover have "\<not> snd (search_configs e w i out t (c # pre))"
      using p(2) by (simp add: k)
    moreover have "snd (search_configs e (fst (search_configs e w i out t (c # pre))) i out t [c'])"
      using p(3) by (simp add: k)
    moreover have "search_configs e w i out t (c # cfgs) =
        search_configs e (fst (search_configs e w i out t (c # pre))) i out t [c']"
      using p(4) step[of cfgs] by (simp add: k)
    ultimately show ?thesis by blast
  qed
qed

lemma search_single_accept:
  assumes "snd (search_configs e w i out t [(pr, ds, d, q)])"
  shows "snd (compress_with_ghostscript_advanced e w i (temp_path out) pr d q)
     \<and> (\<exists>sz. files (fst (compress_with_ghostscript_advanced e w i (temp_path out) pr d q))
                 (temp_path out) = Some sz
            \<and> int sz \<le> t
            \<and> search_configs e w i out t [(pr, ds, d, q)] =
                ((fst (compress_with_ghostscript_advanced e w i (temp_path out) pr d q))
                   \<lparr>files :=
                      ((files (fst (compress_with_ghostscript_advanced e w i (temp_path out) pr d q)))
                         (temp_path out := None))(out \<mapsto> sz)\<rparr>, True))"
proof -
  obtain w1 ok where r: "compress_with_ghostscript_advanced e w i (temp_path out) pr d q = (w1, ok)"
    by (cases "compress_with_ghostscript_advanced e w i (temp_path out) pr d q") auto
  show ?thesis
    using assms
    by (auto simp: r Let_def exists_path_def get_file_size_def rename_def
        split: if_splits option.splits)
qed

lemma search_calls_io:
  "\<exists>new. calls (fst (search_configs e w i out t cfgs)) = calls w @ new
     \<and> (\<forall>c\<in>set new. call_input c = i \<and> call_output c = temp_path out)"
proof -
  obtain k where "calls (fst (search_configs e w i out t cfgs)) =
       calls w @ map (config_call i out) (take k cfgs)"
    using search_calls_prefix[of cfgs e w i out t] by blast
  then show ?thesis
    by (intro exI[of _ "map (config_call i out) (take k cfgs)"])
       (auto simp: config_call_def split: prod.splits)
qed

lemma search_temp_absent:
  assumes "leaves_nothing_on_failure e" and "files w (temp_path out) = None"
  shows "files (fst (search_configs e w i out t cfgs)) (temp_path out) = None"
  using assms(2)
proof (induction cfgs arbitrary: w)
  case Nil
  then show ?case by simp
next
  case (Cons c cfgs)
  obtain pr ds d q where c: "c = (pr, ds, d, q)" by (cases c) auto
  obtain w1 ok where r: "compress_with_ghostscript_advanced e w i (temp_path out) pr d q = (w1, ok)"
    by (cases "compress_with_ghostscript_advanced e w i (temp_path out) pr d q") auto
  have u: "files (unlink w1 (temp_path out)) (temp_path out) = None"
    by (simp add: unlink_def)
  show ?case
  proof (cases ok)
    case False
    then have "files w1 = files w"
      using gsa_failure_files[OF assms(1), of w i "temp_path out" pr d q] by (simp add: r)
    then show ?thesis
      using Cons.IH[of w1] Cons.prems False by (simp add: c r)
  next
    case True
    show ?thesis
    proof (cases "files w1 (temp_path out)")
      case None
      then show ?thesis
        using Cons.IH[of w1] True by (simp add: c r exists_path_def)
    next
      case (Some sz)
      show ?thesis
      proof (cases "int sz \<le> t \<and> \<not> (windows e \<and> files w1 out \<noteq> None)")
        case True
        then show ?thesis
          using \<open>ok\<close> Some temp_path_neq[of out]
          by (auto simp: c r exists_path_def get_file_size_def rename_def)
      next
        case False
        then show ?thesis
          using \<open>ok\<close> Some Cons.IH[OF u]
          by (auto simp: c r Let_def exists_path_def get_file_size_def rename_def)
      qed
    qed
  qed
qed

lemma tss_calls_io:
  "\<exists>new. calls (fst (target_size_search e self w i out t)) = calls w @ new
     \<and> (\<forall>c\<in>set new. call_input c = i \<and> call_output c \<in> {out, temp_path out})"
proof -
  obtain w1 s where r: "search_configs e w i out t configs = (w1, s)"
    by (cases "search_configs e w i out t configs") auto
  obtain new where n: "calls w1 = calls w @ new"
     "\<forall>c\<in>set new. call_input c = i \<and> call_output c = temp_path out"
    using search_calls_io[of e w i out t configs] r by auto
  show ?thesis
  proof (cases s)
    case True
    then show ?thesis using n by (intro exI[of _ new]) (simp add: target_size_search_def r)
  next
    case False
    then show ?thesis using n
      by (intro exI[of _ "new @ [Ghostscript i out ''/screen'']"])
         (auto simp: target_size_search_def r gs_calls)
  qed
qed

lemma tss_first_call:
  "\<exists>rest. calls (fst (target_size_search e self w i out t)) =
     calls w @ GhostscriptAdvanced i (temp_path out) ''/prepress'' 300 90 # rest"
proof -
  let ?c = "(''/prepress'', ''high quality'', 300 :: int, 90 :: int)"
  let ?rest = "[(''/printer'', ''good quality'', 200 :: int, 80 :: int),
      (''/printer'', ''balanced'', 150, 75), (''/ebook'', ''compact'', 150, 70),
      (''/screen'', ''minimal'', 100, 60)]"
  have cfg: "configs = [?c] @ ?rest" by (simp add: configs_def)
  obtain w1 ok where r: "compress_with_ghostscript_advanced e w i (temp_path out) ''/prepress'' 300 90
      = (w1, ok)"
    by (cases "compress_with_ghostscript_advanced e w i (temp_path out) ''/prepress'' 300 90") auto
  have c1: "calls w1 = calls w @ [GhostscriptAdvanced i (temp_path out) ''/prepress'' 300 90]"
    using gsa_calls[of e w i "temp_path out" "''/prepress''" 300 90] by (simp add: r)
  have one: "\<exists>new. calls (fst (search_configs e w i out t [?c])) =
      calls w @ GhostscriptAdvanced i (temp_path out) ''/prepress'' 300 90 # new"
    using c1
    by (auto simp: r Let_def unlink_calls dest: rename_calls split: sum.splits)
  then obtain new1 where n1: "calls (fst (search_configs e w i out t [?c])) =
      calls w @ GhostscriptAdvanced i (temp_path out) ''/prepress'' 300 90 # new1"
    by blast
  obtain new2 where n2: "calls (fst (search_configs e (fst (search_configs e w i out t [?c])) i out t ?rest))
      = calls (fst (search_configs e w i out t [?c])) @ new2"
    using search_calls_io[of e "fst (search_configs e w i out t [?c])" i out t ?rest] by blast
  have loop: "\<exists>new. calls (fst (search_configs e w i out t configs)) =
      calls w @ GhostscriptAdvanced i (temp_path out) ''/prepress'' 300 90 # new"
    unfolding cfg search_append using n1 n2 by (cases "snd (search_configs e w i out t [?c])") simp_all
  then obtain new where n: "calls (fst (search_configs e w i out t configs)) =
      calls w @ GhostscriptAdvanced i (temp_path out) ''/prepress'' 300 90 # new"
    by blast
  show ?thesis
    using n by (simp add: target_size_search_def case_prod_beta gs_calls)
qed

lemma tss_failure_files:
  assumes "leaves_nothing_on_failure e" and "\<not> snd (target_size_search e self w i out t)"
  shows "files (fst (target_size_search e self w i out t)) out = files w out"
proof -
  obtain w1 s where r: "search_configs e w i out t configs = (w1, s)"
    by (cases "search_configs e w i out t configs") auto
  from assms(2) have s: "\<not> s" and f: "\<not> snd (compress_with_ghostscript e self w1 i out (Some ''/screen''))"
    by (auto simp: target_size_search_def r split: if_splits)
  have "files w1 out = files w out"
    using search_rejected_files[of e w i out t configs out] r s temp_path_neq[of out] by auto
  then show ?thesis
    using gs_failure_files[OF assms(1) f] s by (simp add: target_size_search_def r)
qed

lemma single_shot_calls:
  "calls (fst (single_shot e self w i out)) =
     calls w @ Ghostscript i out (gs_settings (compression_level self)) #
       (if \<not> snd (compress_with_ghostscript e self w i out None) \<and> PYPDF_AVAILABLE e
        then [PyPDF i out] else [])"
proof -
  obtain w1 ok where r: "compress_with_ghostscript e self w i out None = (w1, ok)"
    by (cases "compress_with_ghostscript e self w i out None") auto
  have "calls w1 = calls w @ [Ghostscript i out (gs_settings (compression_level self))]"
    using gs_calls[of e self w i out None] by (simp add: r)
  then show ?thesis
    by (simp add: single_shot_def r pypdf_calls)
qed

section \<open>The steps of \<open>compress_file\<close> and of the batch\<close>

lemma compress_file_invalid:
  "files w i = None \<or> lower (suffix i) \<noteq> ''.pdf'' \<Longrightarrow>
     compress_file e self w i oa = (w, Inr (False, i))"
  by (auto simp: compress_file_def exists_path_def)

lemma compress_file_valid:
  fixes e :: env and self :: compressor and w :: world and i :: path and oa :: "path option"
    and out :: path and r :: "world \<times> bool"
  defines "out \<equiv> (case oa of None \<Rightarrow> joinpath (parent i) (stem i @ ''_compressed.pdf'')
                      | Some p \<Rightarrow> p)"
  defines "r \<equiv> (case target_size_bytes self of
                    Some t \<Rightarrow> target_size_search e self w i out t
                  | None \<Rightarrow> single_shot e self w i out)"
  assumes "files w i = Some n" and "lower (suffix i) = ''.pdf''"
  shows "compress_file e self w i oa =
     (fst r,
      if snd r \<and> files (fst r) out \<noteq> None
      then (if n = 0 then Inl ZeroDivisionError else Inr (True, out))
      else Inr (False, i))"
  using assms(3,4) unfolding r_def out_def
  by (auto simp: compress_file_def exists_path_def get_file_size_def Let_def case_prod_beta)

lemma compress_file_world:
  "fst (compress_file e self w i oa) = w \<or>
   (files w i \<noteq> None \<and> lower (suffix i) = ''.pdf'' \<and>
    fst (compress_file e self w i oa) =
      fst (case target_size_bytes self of
             Some t \<Rightarrow> target_size_search e self w i
                (case oa of None \<Rightarrow> joinpath (parent i) (stem i @ ''_compressed.pdf'') | Some p \<Rightarrow> p) t
           | None \<Rightarrow> single_shot e self w i
                (case oa of None \<Rightarrow> joinpath (parent i) (stem i @ ''_compressed.pdf'') | Some p \<Rightarrow> p)))"
proof (cases "files w i = None \<or> lower (suffix i) \<noteq> ''.pdf''")
  case True
  then show ?thesis by (simp add: compress_file_invalid)
next
  case False
  then obtain n where "files w i = Some n" "lower (suffix i) = ''.pdf''" by auto
  then show ?thesis by (simp add: compress_file_valid)
qed

lemma batch_loop_acc:
  "compress_batch_loop e self w xs d acc =
     (case compress_batch_loop e self w xs d [] of
        (w', Inl err) \<Rightarrow> (w', Inl err)
      | (w', Inr rs) \<Rightarrow> (w', Inr (acc @ rs)))"
proof (induction xs arbitrary: w acc)
  case Nil
  then show ?case by simp
next
  case (Cons x xs)
  obtain w1 r where cf: "compress_file e self w x
      (case d of Some dir \<Rightarrow> Some (joinpath dir (stem x @ ''_compressed.pdf'')) | None \<Rightarrow> None)
      = (w1, r)"
    by (cases "compress_file e self w x
      (case d of Some dir \<Rightarrow> Some (joinpath dir (stem x @ ''_compressed.pdf'')) | None \<Rightarrow> None)") auto
  show ?case
  proof (cases r)
    case (Inl err)
    then show ?thesis by (simp add: cf)
  next
    case (Inr sp)
    obtain s p where sp: "sp = (s, p)" by (cases sp) auto
    have L: "compress_batch_loop e self w (x # xs) d acc =
        compress_batch_loop e self w1 xs d (acc @ [(s, x, p)])"
      by (simp add: cf Inr sp)
    have R: "compress_batch_loop e self w (x # xs) d [] =
        compress_batch_loop e self w1 xs d [(s, x, p)]"
      by (simp add: cf Inr sp)
    show ?thesis
      unfolding L R
      using Cons.IH[of w1 "acc @ [(s, x, p)]"] Cons.IH[of w1 "[(s, x, p)]"]
      by (auto split: prod.splits sum.splits)
  qed
qed

lemma batch_step:
  "compress_batch e self w (x # xs) d =
     (case compress_file e self w x (batch_output d x) of
        (w1, Inl err) \<Rightarrow> (w1, Inl err)
      | (w1, Inr (s, p)) \<Rightarrow>
          (case compress_batch e self w1 xs d of
             (w', Inl err) \<Rightarrow> (w', Inl err)
           | (w', Inr rs) \<Rightarrow> (w', Inr ((s, x, p) # rs))))"
proof -
  obtain w1 r where cf: "compress_file e self w x (batch_output d x) = (w1, r)"
    by (cases "compress_file e self w x (batch_output d x)") auto
  show ?thesis
  proof (cases r)
    case (Inl err)
    then show ?thesis using cf by (simp add: compress_batch_def batch_output_def)
  next
    case (Inr sp)
    obtain s p where sp: "sp = (s, p)" by (cases sp) auto
    have A: "compress_batch e self w (x # xs) d = compress_batch_loop e self w1 xs d [(s, x, p)]"
      using cf by (simp add: compress_batch_def batch_output_def Inr sp)
    have B: "compress_batch_loop e self w1 xs d [(s, x, p)] =
        (case compress_batch_loop e self w1 xs d [] of
           (w', Inl err) \<Rightarrow> (w', Inl err)
         | (w', Inr rs) \<Rightarrow> (w', Inr ([(s, x, p)] @ rs)))"
      by (rule batch_loop_acc)
    show ?thesis
      unfolding A B by (simp add: cf Inr sp compress_batch_def split: prod.splits sum.splits)
  qed
qed

lemma batch_inputs:
  "snd (compress_batch e self w xs d) = Inr rs \<Longrightarrow> map (fst \<circ> snd) rs = xs"
proof (induction xs arbitrary: w rs)
  case Nil
  then show ?case by (simp add: compress_batch_def)
next
  case (Cons x xs)
  obtain w1 r where cf: "compress_file e self w x (batch_output d x) = (w1, r)"
    by (cases "compress_file e self w x (batch_output d x)") auto
  obtain w2 r2 where b: "compress_batch e self w1 xs d = (w2, r2)"
    by (cases "compress_batch e self w1 xs d") auto
  from Cons.prems obtain s p rs' where "r = Inr (s, p)" "r2 = Inr rs'" "rs = (s, x, p) # rs'"
    by (auto simp: batch_step cf b split: sum.splits)
  then show ?case
    using Cons.IH[of w1 rs'] b by simp
qed

section \<open>The target-size search\<close>

text \<open>
  The first configuration, in table order, whose candidate was produced with a size at
  most the target is accepted: the temporary file becomes the final output, the outcome is
  success with that size, and exactly the configurations up to it were invoked. Proved for
  a non-empty input and a rename that does not raise (on Windows it raises when a file is
  already at the final output path).
\<close>

theorem first_fit_wins:
  fixes e :: env and w w1 w2 :: world and inp out :: path and t :: int
    and pre :: "(string \<times> string \<times> int \<times> int) list" and pr :: string and d q :: int
  defines "w1 \<equiv> fst (search_configs e w inp out t pre)"
  defines "w2 \<equiv> fst (compress_with_ghostscript_advanced e w1 inp (temp_path out) pr d q)"
  assumes input: "files w inp = Some n" "n \<noteq> 0" "lower (suffix inp) = ''.pdf''"
    and target: "target_size_bytes self = Some t"
    and table: "configs = pre @ (pr, ds, d, q) # post"
    and earlier: "\<not> snd (search_configs e w inp out t pre)"
    and produced: "snd (compress_with_ghostscript_advanced e w1 inp (temp_path out) pr d q)"
    and fits: "files w2 (temp_path out) = Some sz" "int sz \<le> t"
    and renamed: "\<not> windows e \<or> files w2 out = None"
  shows "snd (compress_file e self w inp (Some out)) = Inr (True, out)
       \<and> files (fst (compress_file e self w inp (Some out))) out = Some sz
       \<and> files (fst (compress_file e self w inp (Some out))) (temp_path out) = None
       \<and> calls (fst (compress_file e self w inp (Some out))) =
           calls w @ map (config_call inp out) (pre @ [(pr, ds, d, q)])"
proof -
  let ?w3 = "w2\<lparr>files := ((files w2)(temp_path out := None))(out \<mapsto> sz)\<rparr>"
  have head: "search_configs e w1 inp out t ((pr, ds, d, q) # post) = (?w3, True)"
    using search_accept_head[of e w1 inp out pr d q sz t ds post] produced fits renamed
    by (simp add: w2_def)
  have loop: "search_configs e w inp out t configs = (?w3, True)"
    using earlier head by (simp add: table search_append w1_def)
  have tss: "target_size_search e self w inp out t = (?w3, True)"
    by (simp add: target_size_search_def loop)
  have cf: "compress_file e self w inp (Some out) = (?w3, Inr (True, out))"
    using input target
    by (simp add: compress_file_def exists_path_def get_file_size_def tss)
  have c1: "calls w1 = calls w @ map (config_call inp out) pre"
    using search_rejected_calls[OF earlier] by (simp add: w1_def)
  have c2: "calls w2 = calls w1 @ [config_call inp out (pr, ds, d, q)]"
    by (simp add: w2_def gsa_calls config_call_def)
  show ?thesis
    using temp_path_neq[of out] by (simp add: cf c1 c2)
qed

theorem first_fit_wins_witness:
  "snd (compress_file (posix_env engine_by_dpi) (with_target 200) (fresh_world 1000) doc (Some out_pdf))
       = Inr (True, out_pdf)
   \<and> files (fst (compress_file (posix_env engine_by_dpi) (with_target 200) (fresh_world 1000) doc
         (Some out_pdf))) out_pdf = Some 200
   \<and> files (fst (compress_file (posix_env engine_by_dpi) (with_target 200) (fresh_world 1000) doc
         (Some out_pdf))) (temp_path out_pdf) = None
   \<and> calls (fst (compress_file (posix_env engine_by_dpi) (with_target 200) (fresh_world 1000) doc
         (Some out_pdf))) =
       calls (fresh_world 1000) @ map (config_call doc out_pdf)
         ([(''/prepress'', ''high quality'', 300, 90)] @ [(''/printer'', ''good quality'', 200, 80)])"
  by (rule first_fit_wins[where e = "posix_env engine_by_dpi" and self = "with_target 200"
        and w = "fresh_world 1000" and inp = doc and out = out_pdf and n = 1000 and t = 200
        and sz = 200 and pre = "[(''/prepress'', ''high quality'', 300, 90)]"
        and pr = "''/printer''" and ds = "''good quality''" and d = 200 and q = 80
        and post = "[(''/printer'', ''balanced'', 150, 75), (''/ebook'', ''compact'', 150, 70),
                 (''/screen'', ''minimal'', 100, 60)]"]; code_simp)

text \<open>
  C1. The first configuration whose candidate meets the target is accepted, and no later
  configuration is invoked. The code misses this in two cases. On Windows, with the output
  of an earlier run in place, the first configuration produces a candidate of 300 bytes
  for a target of 400 and is not accepted: every rename raises, all five configurations
  and the fallback are invoked, and the final file is the fallback's 40 bytes. For an empty
  input the candidate is accepted and renamed, and then the size report divides by zero:
  no outcome is returned.
\<close>

theorem first_fit_skipped_when_rename_raises:
  "windows (windows_env engine_by_dpi)
   \<and> files rerun_world out_pdf = Some 500
   \<and> snd (compress_with_ghostscript_advanced (windows_env engine_by_dpi) rerun_world doc
          (temp_path out_pdf) ''/prepress'' 300 90)
   \<and> files (fst (compress_with_ghostscript_advanced (windows_env engine_by_dpi) rerun_world doc
          (temp_path out_pdf) ''/prepress'' 300 90)) (temp_path out_pdf) = Some 300
   \<and> (300 :: int) \<le> 400
   \<and> snd (compress_file (windows_env engine_by_dpi) (with_target 400) rerun_world doc (Some out_pdf))
       = Inr (True, out_pdf)
   \<and> files (fst (compress_file (windows_env engine_by_dpi) (with_target 400) rerun_world doc
         (Some out_pdf))) out_pdf = Some 40
   \<and> calls (fst (compress_file (windows_env engine_by_dpi) (with_target 400) rerun_world doc
         (Some out_pdf))) =
       map (config_call doc out_pdf) configs @ [Ghostscript doc out_pdf ''/screen'']
   \<and> snd (compress_file (posix_env engine_by_dpi) (with_target 400) (fresh_world 0) doc
         (Some out_pdf)) = Inl ZeroDivisionError
   \<and> files (fst (compress_file (posix_env engine_by_dpi) (with_target 400) (fresh_world 0) doc
         (Some out_pdf))) out_pdf = Some 300"
  by code_simp

text \<open>
  C2. For a non-empty input, when no file is at the final output path or at the
  temporary path before the call and every run that fails leaves nothing behind: after
  the search exactly one of two things holds. Either the outcome is success, and the file
  at the final output path is the one that the last invocation of the call left there,
  an invocation that reported success, made after every earlier row of the table was
  rejected (a row of the table, or the fallback when all rows were rejected). Or the
  outcome is failure and no file exists at the final output path. A valid output is read
  as the file written by the invocation that reported success.
\<close>

theorem search_outcome_matches_output:
  assumes input: "files w inp = Some n" "n \<noteq> 0" "lower (suffix inp) = ''.pdf''"
    and target: "target_size_bytes self = Some t"
    and fresh: "files w out = None" "files w (temp_path out) = None"
    and clean: "leaves_nothing_on_failure e"
  shows "(snd (compress_file e self w inp (Some out)) = Inr (True, out)
          \<and> exists_path (fst (compress_file e self w inp (Some out))) out
          \<and> (\<exists>pre post c m.
                configs = pre @ post
              \<and> \<not> snd (search_configs e w inp out t pre)
              \<and> c = (case post of
                        [] \<Rightarrow> Ghostscript inp out ''/screen''
                      | cfg # rest \<Rightarrow> config_call inp out cfg)
              \<and> calls (fst (compress_file e self w inp (Some out))) =
                  calls w @ map (config_call inp out) pre @ [c]
              \<and> snd (invoke e self (fst (search_configs e w inp out t pre)) c)
              \<and> process_left e (fst (search_configs e w inp out t pre)) c = Some m
              \<and> files (fst (compress_file e self w inp (Some out))) out = Some m))
       \<or> (snd (compress_file e self w inp (Some out)) = Inr (False, inp)
          \<and> \<not> exists_path (fst (compress_file e self w inp (Some out))) out)"
proof -
  let ?res = "compress_file e self w inp (Some out)"
  let ?tss = "target_size_search e self w inp out t"
  have cf: "?res = (fst ?tss,
      if snd ?tss \<and> files (fst ?tss) out \<noteq> None then Inr (True, out) else Inr (False, inp))"
    using compress_file_valid[OF input(1,3), of e self "Some out"] target input(2) by simp
  show ?thesis
  proof (cases "snd (search_configs e w inp out t configs)")
    case True
    from search_accept_split[OF True] obtain pre c0 post0 where s: "configs = pre @ c0 # post0"
      "\<not> snd (search_configs e w inp out t pre)"
      "snd (search_configs e (fst (search_configs e w inp out t pre)) inp out t [c0])"
      "search_configs e w inp out t configs =
         search_configs e (fst (search_configs e w inp out t pre)) inp out t [c0]"
      by blast
    let ?wk = "fst (search_configs e w inp out t pre)"
    obtain pr ds d q where c0: "c0 = (pr, ds, d, q)" by (cases c0) auto
    let ?g = "compress_with_ghostscript_advanced e ?wk inp (temp_path out) pr d q"
    from search_single_accept[OF s(3)[unfolded c0]] obtain sz where a:
      "snd ?g" "files (fst ?g) (temp_path out) = Some sz" "int sz \<le> t"
      "search_configs e ?wk inp out t [(pr, ds, d, q)] =
         ((fst ?g)\<lparr>files := ((files (fst ?g))(temp_path out := None))(out \<mapsto> sz)\<rparr>, True)"
      by blast
    let ?w3 = "(fst ?g)\<lparr>files := ((files (fst ?g))(temp_path out := None))(out \<mapsto> sz)\<rparr>"
    have loop: "search_configs e w inp out t configs = (?w3, True)"
      using s(4) a(4) by (simp add: c0)
    have tss: "?tss = (?w3, True)"
      by (simp add: target_size_search_def loop)
    have tk: "files ?wk (temp_path out) = None"
      by (rule search_temp_absent[OF clean fresh(2)])
    have pl: "process_left e ?wk (GhostscriptAdvanced inp (temp_path out) pr d q) = Some sz"
      using gsa_files_out[of e ?wk inp "temp_path out" pr d q] a(2) tk
      by (simp split: option.splits)
    have ck: "calls ?wk = calls w @ map (config_call inp out) pre"
      by (rule search_rejected_calls[OF s(2)])
    have c3: "calls ?w3 = calls w @ map (config_call inp out) pre @
        [GhostscriptAdvanced inp (temp_path out) pr d q]"
      by (simp add: gsa_calls ck)
    have r1: "snd ?res = Inr (True, out)" "exists_path (fst ?res) out"
      "files (fst ?res) out = Some sz" "calls (fst ?res) = calls ?w3"
      by (simp_all add: cf tss exists_path_def)
    have ex: "\<exists>pre post c m.
                configs = pre @ post
              \<and> \<not> snd (search_configs e w inp out t pre)
              \<and> c = (case post of
                        [] \<Rightarrow> Ghostscript inp out ''/screen''
                      | cfg # rest \<Rightarrow> config_call inp out cfg)
              \<and> calls (fst ?res) = calls w @ map (config_call inp out) pre @ [c]
              \<and> snd (invoke e self (fst (search_configs e w inp out t pre)) c)
              \<and> process_left e (fst (search_configs e w inp out t pre)) c = Some m
              \<and> files (fst ?res) out = Some m"
      using s(1,2) a(1) pl r1(3,4) c3
      by (intro exI[of _ pre] exI[of _ "c0 # post0"]
            exI[of _ "GhostscriptAdvanced inp (temp_path out) pr d q"] exI[of _ sz])
         (simp add: c0 config_call_def)
    show ?thesis using r1(1,2) ex by blast
  next
    case False
    then obtain w1 where loop: "search_configs e w inp out t configs = (w1, False)"
      by (cases "search_configs e w inp out t configs") auto
    have w1: "fst (search_configs e w inp out t configs) = w1"
      by (simp add: loop)
    let ?r = "compress_with_ghostscript e self w1 inp out (Some ''/screen'')"
    have tss: "?tss = ?r"
      by (simp add: target_size_search_def loop)
    have f1: "files w1 out = None"
      using search_rejected_files[OF False, of out] temp_path_neq[of out] fresh(1)
      by (simp add: w1)
    have c1: "calls w1 = calls w @ map (config_call inp out) configs"
      using search_rejected_calls[OF False] by (simp add: w1)
    have c2: "calls (fst ?r) = calls w1 @ [Ghostscript inp out ''/screen'']"
      using gs_calls[of e self w1 inp out "Some ''/screen''"] by simp
    have fo: "files (fst ?r) out = process_left e w1 (Ghostscript inp out ''/screen'')"
      using gs_files_out[of e self w1 inp out "Some ''/screen''"] f1
      by (simp split: option.splits)
    show ?thesis
    proof (cases "snd ?r \<and> files (fst ?r) out \<noteq> None")
      case True
      then obtain m where m: "files (fst ?r) out = Some m" by auto
      have r1: "snd ?res = Inr (True, out)" "exists_path (fst ?res) out"
        "files (fst ?res) out = Some m" "calls (fst ?res) = calls (fst ?r)"
        using True m by (simp_all add: cf tss exists_path_def)
      have ex: "\<exists>pre post c m.
                configs = pre @ post
              \<and> \<not> snd (search_configs e w inp out t pre)
              \<and> c = (case post of
                        [] \<Rightarrow> Ghostscript inp out ''/screen''
                      | cfg # rest \<Rightarrow> config_call inp out cfg)
              \<and> calls (fst ?res) = calls w @ map (config_call inp out) pre @ [c]
              \<and> snd (invoke e self (fst (search_configs e w inp out t pre)) c)
              \<and> process_left e (fst (search_configs e w inp out t pre)) c = Some m
              \<and> files (fst ?res) out = Some m"
        using False True fo m r1(3,4) c1 c2
        by (intro exI[of _ configs] exI[of _ "[]"] exI[of _ "Ghostscript inp out ''/screen''"]
              exI[of _ m]) (simp add: w1)
      show ?thesis using r1(1,2) ex by blast
    next
      case False
      have "files (fst ?r) out = None"
      proof (cases "snd ?r")
        case True
        then show ?thesis using False by simp
      next
        case False
        then show ?thesis
          using gs_failure_files[OF clean False] f1 by simp
      qed
      then have "snd ?res = Inr (False, inp)" "\<not> exists_path (fst ?res) out"
        using False by (simp_all add: cf tss exists_path_def)
      then show ?thesis by blast
    qed
  qed
qed

theorem search_outcome_matches_output_witness:
  "snd (compress_file (posix_env (engine_const ExeNotFound)) (with_target 50) (fresh_world 1000)
          doc (Some out_pdf)) = Inr (False, doc)
   \<and> \<not> exists_path (fst (compress_file (posix_env (engine_const ExeNotFound)) (with_target 50)
          (fresh_world 1000) doc (Some out_pdf))) out_pdf
   \<and> snd (compress_file (posix_env engine_by_dpi) (with_target 200) (fresh_world 1000)
          doc (Some out_pdf)) = Inr (True, out_pdf)
   \<and> exists_path (fst (compress_file (posix_env engine_by_dpi) (with_target 200)
          (fresh_world 1000) doc (Some out_pdf))) out_pdf"
proof -
  have clean1: "leaves_nothing_on_failure (posix_env (engine_const ExeNotFound))"
    by (simp add: leaves_nothing_on_failure_def posix_env_def engine_const_def)
  have clean2: "leaves_nothing_on_failure (posix_env engine_by_dpi)"
    by (auto simp: leaves_nothing_on_failure_def posix_env_def engine_by_dpi_def
        split: option.splits)
  have h: "files (fresh_world 1000) doc = Some 1000" "(1000::nat) \<noteq> 0"
    "lower (suffix doc) = ''.pdf''"
    by code_simp+
  have t1: "target_size_bytes (with_target 50) = Some 50"
    and t2: "target_size_bytes (with_target 200) = Some 200"
    by code_simp+
  have fresh: "files (fresh_world 1000) out_pdf = None"
    "files (fresh_world 1000) (temp_path out_pdf) = None"
    by code_simp+
  have f: "snd (compress_file (posix_env (engine_const ExeNotFound)) (with_target 50) (fresh_world 1000)
          doc (Some out_pdf)) \<noteq> Inr (True, out_pdf)"
    by code_simp
  have s: "snd (compress_file (posix_env engine_by_dpi) (with_target 200) (fresh_world 1000)
          doc (Some out_pdf)) \<noteq> Inr (False, doc)"
    by code_simp
  from search_outcome_matches_output[OF h t1 fresh clean1] f
  have one: "snd (compress_file (posix_env (engine_const ExeNotFound)) (with_target 50)
          (fresh_world 1000) doc (Some out_pdf)) = Inr (False, doc)
      \<and> \<not> exists_path (fst (compress_file (posix_env (engine_const ExeNotFound)) (with_target 50)
          (fresh_world 1000) doc (Some out_pdf))) out_pdf"
    by blast
  from search_outcome_matches_output[OF h t2 fresh clean2] s
  have two: "snd (compress_file (posix_env engine_by_dpi) (with_target 200) (fresh_world 1000)
          doc (Some out_pdf)) = Inr (True, out_pdf)
      \<and> exists_path (fst (compress_file (posix_env engine_by_dpi) (with_target 200)
          (fresh_world 1000) doc (Some out_pdf))) out_pdf"
    by blast
  from one two show ?thesis by blast
qed

text \<open>
  Without these assumptions the outcome can be failure with a file at the final output
  path: the partial file of the failed fallback, the output of a process whose call
  raised after it had written, or the file of an earlier run. The outcome can be success
  with a file that no successful invocation wrote: the untouched file of an earlier run
  when the fallback returns code 0 without writing, or the partial temporary file of a
  failed row when the next row returns code 0 without writing. For an empty input that
  Ghostscript accepts there is no outcome: the size report divides by zero.
\<close>

theorem search_outcome_matches_output_counterexample:
  "files (fresh_world 1000) out_pdf = None
   \<and> snd (compress_file (posix_env (engine_const (Completed 1 (Some 7)))) (with_target 50)
          (fresh_world 1000) doc (Some out_pdf)) = Inr (False, doc)
   \<and> files (fst (compress_file (posix_env (engine_const (Completed 1 (Some 7)))) (with_target 50)
          (fresh_world 1000) doc (Some out_pdf))) out_pdf = Some 7
   \<and> snd (compress_file (posix_env (engine_const (RunRaised (Some 9)))) (with_target 50)
          (fresh_world 1000) doc (Some out_pdf)) = Inr (False, doc)
   \<and> files (fst (compress_file (posix_env (engine_const (RunRaised (Some 9)))) (with_target 50)
          (fresh_world 1000) doc (Some out_pdf))) out_pdf = Some 9
   \<and> snd (compress_file (posix_env (engine_const ExeNotFound)) (with_target 50) rerun_world
          doc (Some out_pdf)) = Inr (False, doc)
   \<and> files (fst (compress_file (posix_env (engine_const ExeNotFound)) (with_target 50) rerun_world
          doc (Some out_pdf))) out_pdf = Some 500
   \<and> snd (compress_file (posix_env engine_by_dpi) (with_target 200) (fresh_world 0)
          doc (Some out_pdf)) = Inl ZeroDivisionError
   \<and> files rerun_world out_pdf = Some 500
   \<and> process_left (posix_env (engine_two (Completed 0 (Some 900)) (Completed 0 None)))
        (fst (search_configs (posix_env (engine_two (Completed 0 (Some 900)) (Completed 0 None)))
                rerun_world doc out_pdf 50 configs))
        (Ghostscript doc out_pdf ''/screen'') = None
   \<and> snd (compress_file (posix_env (engine_two (Completed 0 (Some 900)) (Completed 0 None)))
          (with_target 50) rerun_world doc (Some out_pdf)) = Inr (True, out_pdf)
   \<and> files (fst (compress_file (posix_env (engine_two (Completed 0 (Some 900)) (Completed 0 None)))
          (with_target 50) rerun_world doc (Some out_pdf))) out_pdf = Some 500
   \<and> \<not> snd (compress_with_ghostscript_advanced (posix_env engine_partial_then_silent)
            (fresh_world 1000) doc (temp_path out_pdf) ''/prepress'' 300 90)
   \<and> files (fst (compress_with_ghostscript_advanced (posix_env engine_partial_then_silent)
            (fresh_world 1000) doc (temp_path out_pdf) ''/prepress'' 300 90)) (temp_path out_pdf)
       = Some 7
   \<and> snd (compress_file (posix_env engine_partial_then_silent) (with_target 50) (fresh_world 1000)
          doc (Some out_pdf)) = Inr (True, out_pdf)
   \<and> files (fst (compress_file (posix_env engine_partial_then_silent) (with_target 50)
          (fresh_world 1000) doc (Some out_pdf))) out_pdf = Some 7
   \<and> calls (fst (compress_file (posix_env engine_partial_then_silent) (with_target 50)
          (fresh_world 1000) doc (Some out_pdf))) =
       [GhostscriptAdvanced doc (temp_path out_pdf) ''/prepress'' 300 90,
        GhostscriptAdvanced doc (temp_path out_pdf) ''/printer'' 200 80]"
  by code_simp

text \<open>
  C3. No temporary file remains after the search. The code leaves one behind when a
  configuration's run fails after writing to its output: the loop removes the temporary
  file when the candidate is too large and when an exception reaches its handler, not
  when the method returns False. Shown on a run where every invocation fails, and on a
  run that ends in success through the fallback.
\<close>

theorem temporary_left_behind:
  "temp_path out_pdf = Path [] [''temp_out.pdf'']
   \<and> files (fresh_world 1000) (temp_path out_pdf) = None
   \<and> snd (compress_file (posix_env (engine_const (Completed 1 (Some 7)))) (with_target 50)
          (fresh_world 1000) doc (Some out_pdf)) = Inr (False, doc)
   \<and> files (fst (compress_file (posix_env (engine_const (Completed 1 (Some 7)))) (with_target 50)
          (fresh_world 1000) doc (Some out_pdf))) (temp_path out_pdf) = Some 7
   \<and> snd (compress_file (posix_env engine_screen_fails) (with_target 50)
          (fresh_world 1000) doc (Some out_pdf)) = Inr (True, out_pdf)
   \<and> files (fst (compress_file (posix_env engine_screen_fails) (with_target 50)
          (fresh_world 1000) doc (Some out_pdf))) (temp_path out_pdf) = Some 7"
  by code_simp

text \<open>
  When failing runs leave nothing at their output path and no temporary file was there
  before, none is there afterwards.
\<close>

theorem temporary_removed_when_failures_leave_nothing:
  assumes "leaves_nothing_on_failure e" and "files w (temp_path out) = None"
    and "target_size_bytes self = Some t"
  shows "files (fst (compress_file e self w inp (Some out))) (temp_path out) = None"
proof -
  have "files (fst (target_size_search e self w inp out t)) (temp_path out) = None"
    using search_temp_absent[OF assms(1,2), of inp t configs]
      gs_files_other[of "temp_path out" out e self _ inp "Some ''/screen''"] temp_path_neq[of out]
    by (simp add: target_size_search_def case_prod_beta)
  then show ?thesis
    using compress_file_world[of e self w inp "Some out"] assms(2,3) by auto
qed

theorem temporary_removed_when_failures_leave_nothing_witness:
  "files (fst (compress_file (posix_env engine_by_dpi) (with_target 120) (fresh_world 1000) doc
      (Some out_pdf))) (temp_path out_pdf) = None"
proof -
  have clean: "leaves_nothing_on_failure (posix_env engine_by_dpi)"
    by (auto simp: leaves_nothing_on_failure_def posix_env_def engine_by_dpi_def
        split: option.splits)
  have h: "files (fresh_world 1000) (temp_path out_pdf) = None"
    "target_size_bytes (with_target 120) = Some 120"
    by code_simp+
  show ?thesis
    by (rule temporary_removed_when_failures_leave_nothing[OF clean h])
qed

text \<open>
  C4. After an invocation, the requested output path holds what the external process
  left there, and otherwise what was there before. So when an invocation reports failure,
  no file exists at the requested output path afterwards provided none was there before
  and the external process left none. The methods themselves remove nothing: a path
  without a file after the invocation had none before it.
\<close>

theorem invoker_failure_output:
  fixes e :: env and self :: compressor and w :: world and i out :: path and pr :: string
    and d q :: int and ov :: "string option" and c_adv c_gs :: call
  defines "c_adv \<equiv> GhostscriptAdvanced i out pr d q"
  defines "c_gs \<equiv> Ghostscript i out
                    (case ov of Some x \<Rightarrow> x | None \<Rightarrow> gs_settings (compression_level self))"
  shows "files (fst (compress_with_ghostscript_advanced e w i out pr d q)) out =
           (case process_left e w c_adv of Some n \<Rightarrow> Some n | None \<Rightarrow> files w out)
       \<and> files (fst (compress_with_ghostscript e self w i out ov)) out =
           (case process_left e w c_gs of Some n \<Rightarrow> Some n | None \<Rightarrow> files w out)
       \<and> (\<not> snd (compress_with_ghostscript_advanced e w i out pr d q)
            \<and> files w out = None \<and> process_left e w c_adv = None \<longrightarrow>
              files (fst (compress_with_ghostscript_advanced e w i out pr d q)) out = None)
       \<and> (\<not> snd (compress_with_ghostscript e self w i out ov)
            \<and> files w out = None \<and> process_left e w c_gs = None \<longrightarrow>
              files (fst (compress_with_ghostscript e self w i out ov)) out = None)
       \<and> (\<forall>p. files (fst (compress_with_ghostscript_advanced e w i out pr d q)) p = None \<longrightarrow>
              files w p = None)
       \<and> (\<forall>p. files (fst (compress_with_ghostscript e self w i out ov)) p = None \<longrightarrow>
              files w p = None)"
  unfolding c_adv_def c_gs_def
  using gsa_files_out[of e w i out pr d q] gs_files_out[of e self w i out ov]
    gsa_keeps[of e w i out pr d q] gs_keeps[of e self w i out ov]
  by auto

theorem invoker_failure_output_witness:
  "\<not> snd (compress_with_ghostscript_advanced (posix_env (engine_const (Completed 1 None)))
            (fresh_world 1000) doc out_pdf ''/screen'' 100 60)
   \<and> process_left (posix_env (engine_const (Completed 1 None))) (fresh_world 1000)
        (GhostscriptAdvanced doc out_pdf ''/screen'' 100 60) = None
   \<and> files (fst (compress_with_ghostscript_advanced (posix_env (engine_const (Completed 1 None)))
            (fresh_world 1000) doc out_pdf ''/screen'' 100 60)) out_pdf = None
   \<and> \<not> snd (compress_with_ghostscript (posix_env (engine_const (Completed 1 None)))
            (with_target 50) (fresh_world 1000) doc out_pdf (Some ''/screen''))
   \<and> process_left (posix_env (engine_const (Completed 1 None))) (fresh_world 1000)
        (Ghostscript doc out_pdf ''/screen'') = None
   \<and> files (fst (compress_with_ghostscript (posix_env (engine_const (Completed 1 None)))
            (with_target 50) (fresh_world 1000) doc out_pdf (Some ''/screen''))) out_pdf = None"
proof -
  let ?e = "posix_env (engine_const (Completed 1 None))"
  have absent: "files (fresh_world 1000) out_pdf = None"
    by code_simp
  have a: "\<not> snd (compress_with_ghostscript_advanced ?e (fresh_world 1000) doc out_pdf
            ''/screen'' 100 60)"
    "process_left ?e (fresh_world 1000) (GhostscriptAdvanced doc out_pdf ''/screen'' 100 60) = None"
    by code_simp+
  have b: "\<not> snd (compress_with_ghostscript ?e (with_target 50) (fresh_world 1000) doc out_pdf
            (Some ''/screen''))"
    "process_left ?e (fresh_world 1000) (Ghostscript doc out_pdf ''/screen'') = None"
    by code_simp+
  note t = invoker_failure_output[of ?e "fresh_world 1000" doc out_pdf "''/screen''" 100 60
        "with_target 50" "Some ''/screen''"]
  from t absent a have one: "files (fst (compress_with_ghostscript_advanced ?e (fresh_world 1000)
      doc out_pdf ''/screen'' 100 60)) out_pdf = None"
    by blast
  from t absent b have two: "files (fst (compress_with_ghostscript ?e (with_target 50)
      (fresh_world 1000) doc out_pdf (Some ''/screen''))) out_pdf = None"
    by simp
  from a b one two show ?thesis by blast
qed

text \<open>
  A process that writes part of its output and returns a non-zero code leaves that file
  in place after either method; so does a process whose call raises after it has written
  its output, and so does a file that was there before a failed invocation.
\<close>

theorem invoker_failure_output_counterexample:
  "\<not> snd (compress_with_ghostscript_advanced (posix_env (engine_const (Completed 1 (Some 7))))
            (fresh_world 1000) doc out_pdf ''/screen'' 100 60)
   \<and> files (fresh_world 1000) out_pdf = None
   \<and> files (fst (compress_with_ghostscript_advanced (posix_env (engine_const (Completed 1 (Some 7))))
            (fresh_world 1000) doc out_pdf ''/screen'' 100 60)) out_pdf = Some 7
   \<and> \<not> snd (compress_with_ghostscript (posix_env (engine_const (Completed 1 (Some 7))))
            (with_target 50) (fresh_world 1000) doc out_pdf (Some ''/screen''))
   \<and> files (fst (compress_with_ghostscript (posix_env (engine_const (Completed 1 (Some 7))))
            (with_target 50) (fresh_world 1000) doc out_pdf (Some ''/screen''))) out_pdf = Some 7
   \<and> \<not> snd (compress_with_ghostscript_advanced (posix_env (engine_const (RunRaised (Some 9))))
            (fresh_world 1000) doc out_pdf ''/screen'' 100 60)
   \<and> files (fst (compress_with_ghostscript_advanced (posix_env (engine_const (RunRaised (Some 9))))
            (fresh_world 1000) doc out_pdf ''/screen'' 100 60)) out_pdf = Some 9
   \<and> \<not> snd (compress_with_ghostscript (posix_env (engine_const ExeNotFound))
            (with_target 50) rerun_world doc out_pdf (Some ''/screen''))
   \<and> files (fst (compress_with_ghostscript (posix_env (engine_const ExeNotFound))
            (with_target 50) rerun_world doc out_pdf (Some ''/screen''))) out_pdf = Some 500"
  by code_simp

text \<open>
  C5. When no configuration of the table is accepted, the search makes exactly one more
  invocation, with the preset \<open>/screen\<close>, writing to the final output path. If it
  succeeds and a file exists there, the outcome is success whatever the size (for a
  non-empty input); if it fails, the outcome is failure, and no file is at the final output
  path provided none was there before and the process of that invocation left none.
\<close>

theorem fallback_after_table:
  fixes e :: env and self :: compressor and w w1 :: world and inp out :: path and t :: int
  defines "w1 \<equiv> fst (search_configs e w inp out t configs)"
  assumes input: "files w inp = Some n" "n \<noteq> 0" "lower (suffix inp) = ''.pdf''"
    and target: "target_size_bytes self = Some t"
    and none_fits: "\<not> snd (search_configs e w inp out t configs)"
  shows "fst (compress_file e self w inp (Some out)) =
           fst (compress_with_ghostscript e self w1 inp out (Some ''/screen''))
       \<and> calls (fst (compress_file e self w inp (Some out))) =
           calls w @ map (config_call inp out) configs @ [Ghostscript inp out ''/screen'']
       \<and> (snd (compress_with_ghostscript e self w1 inp out (Some ''/screen''))
            \<and> exists_path (fst (compress_with_ghostscript e self w1 inp out (Some ''/screen''))) out
          \<longrightarrow> snd (compress_file e self w inp (Some out)) = Inr (True, out))
       \<and> (\<not> snd (compress_with_ghostscript e self w1 inp out (Some ''/screen''))
          \<longrightarrow> snd (compress_file e self w inp (Some out)) = Inr (False, inp))
       \<and> (\<not> snd (compress_with_ghostscript e self w1 inp out (Some ''/screen''))
            \<and> files w out = None
            \<and> process_left e w1 (Ghostscript inp out ''/screen'') = None
          \<longrightarrow> files (fst (compress_file e self w inp (Some out))) out = None)"
proof -
  let ?r = "compress_with_ghostscript e self w1 inp out (Some ''/screen'')"
  have loop: "search_configs e w inp out t configs = (w1, False)"
    using none_fits by (simp add: w1_def prod_eq_iff)
  have tss: "target_size_search e self w inp out t = ?r"
    by (simp add: target_size_search_def loop)
  have c1: "calls w1 = calls w @ map (config_call inp out) configs"
    using search_rejected_calls[OF none_fits] by (simp add: w1_def)
  have f1: "files w1 out = files w out"
    using search_rejected_files[OF none_fits, of out] temp_path_neq[of out] by (simp add: w1_def)
  obtain w2 s where r: "?r = (w2, s)" by (cases ?r) auto
  have cf: "compress_file e self w inp (Some out) =
      (if s \<and> exists_path w2 out then (w2, Inr (True, out)) else (w2, Inr (False, inp)))"
    using input target
    by (auto simp: compress_file_def exists_path_def get_file_size_def tss r)
  have c2: "calls w2 = calls w1 @ [Ghostscript inp out ''/screen'']"
    using gs_calls[of e self w1 inp out "Some ''/screen''"] by (simp add: r)
  have clean: "files w2 out = None"
    if "files w out = None" "process_left e w1 (Ghostscript inp out ''/screen'') = None"
    using gs_files_out[of e self w1 inp out "Some ''/screen''"] that f1 by (simp add: r)
  show ?thesis
    using clean by (simp add: cf r c1 c2)
qed

theorem fallback_after_table_witness:
  "snd (compress_file (posix_env (engine_two (Completed 0 (Some 900)) (Completed 0 (Some 60))))
          (with_target 50) (fresh_world 1000) doc (Some out_pdf)) = Inr (True, out_pdf)
   \<and> files (fst (compress_file (posix_env (engine_two (Completed 0 (Some 900)) (Completed 0 (Some 60))))
          (with_target 50) (fresh_world 1000) doc (Some out_pdf))) out_pdf = Some 60
   \<and> calls (fst (compress_file (posix_env (engine_two (Completed 0 (Some 900)) (Completed 0 (Some 60))))
          (with_target 50) (fresh_world 1000) doc (Some out_pdf))) =
       calls (fresh_world 1000) @ map (config_call doc out_pdf) configs @
         [Ghostscript doc out_pdf ''/screen'']"
proof -
  let ?e = "posix_env (engine_two (Completed 0 (Some 900)) (Completed 0 (Some 60)))"
  have h: "files (fresh_world 1000) doc = Some 1000" "(1000::nat) \<noteq> 0"
    "lower (suffix doc) = ''.pdf''" "target_size_bytes (with_target 50) = Some 50"
    "\<not> snd (search_configs ?e (fresh_world 1000) doc out_pdf 50 configs)"
    by code_simp+
  have s: "snd (compress_with_ghostscript ?e (with_target 50)
             (fst (search_configs ?e (fresh_world 1000) doc out_pdf 50 configs)) doc out_pdf
             (Some ''/screen''))"
    "exists_path (fst (compress_with_ghostscript ?e (with_target 50)
             (fst (search_configs ?e (fresh_world 1000) doc out_pdf 50 configs)) doc out_pdf
             (Some ''/screen''))) out_pdf"
    by code_simp+
  have f: "files (fst (compress_with_ghostscript ?e (with_target 50)
             (fst (search_configs ?e (fresh_world 1000) doc out_pdf 50 configs)) doc out_pdf
             (Some ''/screen''))) out_pdf = Some 60"
    by code_simp
  note main = fallback_after_table[OF h]
  from main have same: "fst (compress_file ?e (with_target 50) (fresh_world 1000) doc (Some out_pdf)) =
      fst (compress_with_ghostscript ?e (with_target 50)
             (fst (search_configs ?e (fresh_world 1000) doc out_pdf 50 configs)) doc out_pdf
             (Some ''/screen''))"
    by (rule conjunct1)
  from main s have "snd (compress_file ?e (with_target 50) (fresh_world 1000) doc (Some out_pdf)) =
      Inr (True, out_pdf)"
    by blast
  moreover from main have "calls (fst (compress_file ?e (with_target 50) (fresh_world 1000) doc
      (Some out_pdf))) = calls (fresh_world 1000) @ map (config_call doc out_pdf) configs @
         [Ghostscript doc out_pdf ''/screen'']"
    by blast
  ultimately show ?thesis
    using f by (simp only: same)
qed

text \<open>
  A fallback run that fails after writing part of its output gives the outcome failure
  with a file at the final output path, and so does one whose call raises after the
  process has written. A fallback run that returns code 0 without leaving a file gives
  the outcome failure, and one that succeeds on an empty input gives no outcome.
\<close>

theorem fallback_after_table_counterexample:
  "\<not> snd (search_configs (posix_env (engine_two (Completed 0 (Some 900)) (Completed 1 (Some 7))))
            (fresh_world 1000) doc out_pdf 50 configs)
   \<and> files (fresh_world 1000) out_pdf = None
   \<and> snd (compress_file (posix_env (engine_two (Completed 0 (Some 900)) (Completed 1 (Some 7))))
          (with_target 50) (fresh_world 1000) doc (Some out_pdf)) = Inr (False, doc)
   \<and> files (fst (compress_file (posix_env (engine_two (Completed 0 (Some 900)) (Completed 1 (Some 7))))
          (with_target 50) (fresh_world 1000) doc (Some out_pdf))) out_pdf = Some 7
   \<and> snd (compress_with_ghostscript
            (posix_env (engine_two (Completed 0 (Some 900)) (Completed 0 None))) (with_target 50)
            (fst (search_configs (posix_env (engine_two (Completed 0 (Some 900)) (Completed 0 None)))
                    (fresh_world 1000) doc out_pdf 50 configs))
            doc out_pdf (Some ''/screen''))
   \<and> snd (compress_file (posix_env (engine_two (Completed 0 (Some 900)) (Completed 0 None)))
          (with_target 50) (fresh_world 1000) doc (Some out_pdf)) = Inr (False, doc)
   \<and> snd (compress_file (posix_env (engine_two (Completed 0 (Some 900)) (Completed 0 (Some 60))))
          (with_target 50) (fresh_world 0) doc (Some out_pdf)) = Inl ZeroDivisionError
   \<and> snd (compress_file (posix_env (engine_two (Completed 0 (Some 900)) (RunRaised (Some 9))))
          (with_target 50) (fresh_world 1000) doc (Some out_pdf)) = Inr (False, doc)
   \<and> files (fst (compress_file (posix_env (engine_two (Completed 0 (Some 900)) (RunRaised (Some 9))))
          (with_target 50) (fresh_world 1000) doc (Some out_pdf))) out_pdf = Some 9"
  by code_simp

section \<open>The table\<close>

text \<open>
  C7. The table is, in order, prepress, printer, printer (balanced), ebook, screen; from
  each row to the next neither the image DPI nor the JPEG quality increases; and the loop
  invokes the rows in this order, stopping after some row.
\<close>

theorem table_order_and_monotone:
  "map fst configs = [''/prepress'', ''/printer'', ''/printer'', ''/ebook'', ''/screen'']
   \<and> map (fst \<circ> snd) configs =
       [''high quality'', ''good quality'', ''balanced'', ''compact'', ''minimal'']
   \<and> (\<forall>i. Suc i < length configs \<longrightarrow>
          config_dpi (configs ! Suc i) \<le> config_dpi (configs ! i)
        \<and> config_jpeg_q (configs ! Suc i) \<le> config_jpeg_q (configs ! i))
   \<and> (\<exists>k\<le>length configs.
          calls (fst (search_configs e w inp out t configs)) =
            calls w @ map (config_call inp out) (take k configs))"
proof -
  have mono: "config_dpi (configs ! Suc i) \<le> config_dpi (configs ! i)
        \<and> config_jpeg_q (configs ! Suc i) \<le> config_jpeg_q (configs ! i)"
    if "Suc i < length configs" for i
  proof -
    from that have "i < 4" by (simp add: configs_def)
    then consider "i = 0" | "i = 1" | "i = 2" | "i = 3" by linarith
    then show ?thesis
      by cases (simp_all add: configs_def config_dpi_def config_jpeg_q_def)
  qed
  show ?thesis
    using mono search_calls_prefix[of configs e w inp out t]
    by (simp add: configs_def)
qed

theorem table_order_and_monotone_witness:
  "Suc 2 < length configs
   \<and> config_dpi (configs ! Suc 2) \<le> config_dpi (configs ! 2)
   \<and> config_jpeg_q (configs ! Suc 2) \<le> config_jpeg_q (configs ! 2)
   \<and> map fst configs = [''/prepress'', ''/printer'', ''/printer'', ''/ebook'', ''/screen'']"
proof -
  have len: "Suc 2 < length configs" by (simp add: configs_def)
  note t = table_order_and_monotone[of "posix_env engine_by_dpi" "fresh_world 1000" doc out_pdf 200]
  from t have "\<forall>i. Suc i < length configs \<longrightarrow>
          config_dpi (configs ! Suc i) \<le> config_dpi (configs ! i)
        \<and> config_jpeg_q (configs ! Suc i) \<le> config_jpeg_q (configs ! i)"
    by blast
  with len have "config_dpi (configs ! Suc 2) \<le> config_dpi (configs ! 2)
        \<and> config_jpeg_q (configs ! Suc 2) \<le> config_jpeg_q (configs ! 2)"
    by blast
  moreover from t have "map fst configs = [''/prepress'', ''/printer'', ''/printer'', ''/ebook'', ''/screen'']"
    by blast
  ultimately show ?thesis using len by blast
qed

section \<open>Single-shot compression\<close>

text \<open>
  C9. Without a target size, Ghostscript is called first, with the preset of the
  compression level; the library is called exactly when that call returns False and the
  library is available; each is called at most once. The job is reported as failed when
  both fail, and otherwise only when no file exists at the output path; when one of them
  succeeds and the file exists, a non-empty input is reported as compressed.
\<close>

theorem single_shot_fallback:
  fixes e :: env and self :: compressor and w :: world and inp out :: path
    and r1 r2 :: "world \<times> bool" and res :: "world \<times> (error + bool \<times> path)"
  defines "r1 \<equiv> compress_with_ghostscript e self w inp out None"
  defines "r2 \<equiv> compress_with_pypdf e self (fst r1) inp out"
  defines "res \<equiv> compress_file e self w inp (Some out)"
  assumes input: "files w inp = Some n" "lower (suffix inp) = ''.pdf''"
    and no_target: "target_size_bytes self = None"
  shows "calls (fst res) =
           calls w @ Ghostscript inp out (gs_settings (compression_level self)) #
             (if \<not> snd r1 \<and> PYPDF_AVAILABLE e then [PyPDF inp out] else [])
       \<and> (snd res = Inr (False, inp) \<longrightarrow>
            (\<not> snd r1 \<and> (PYPDF_AVAILABLE e \<longrightarrow> \<not> snd r2)) \<or> \<not> exists_path (fst res) out)
       \<and> (\<not> snd r1 \<and> (PYPDF_AVAILABLE e \<longrightarrow> \<not> snd r2) \<longrightarrow> snd res = Inr (False, inp))
       \<and> ((snd r1 \<or> PYPDF_AVAILABLE e \<and> snd r2) \<and> exists_path (fst res) out \<and> n \<noteq> 0 \<longrightarrow>
            snd res = Inr (True, out))"
proof -
  let ?s = "single_shot e self w inp out"
  have ss: "?s = (if snd r1 then (fst r1, True) else if PYPDF_AVAILABLE e then r2 else (fst r1, False))"
    by (simp add: single_shot_def r1_def r2_def case_prod_beta)
  have cf: "res = (fst ?s,
      if snd ?s \<and> files (fst ?s) out \<noteq> None
      then (if n = 0 then Inl ZeroDivisionError else Inr (True, out))
      else Inr (False, inp))"
    using compress_file_valid[OF input, of e self "Some out"] no_target by (simp add: res_def)
  have tr: "calls (fst res) =
           calls w @ Ghostscript inp out (gs_settings (compression_level self)) #
             (if \<not> snd r1 \<and> PYPDF_AVAILABLE e then [PyPDF inp out] else [])"
    using single_shot_calls[of e self w inp out] by (simp add: cf r1_def)
  have flag: "snd ?s = (snd r1 \<or> PYPDF_AVAILABLE e \<and> snd r2)"
    by (simp add: ss)
  show ?thesis
    using tr flag by (auto simp: cf exists_path_def)
qed

theorem single_shot_fallback_witness:
  "calls (fst (compress_file (with_library 80 (posix_env (engine_const ExeNotFound)))
       (no_target Medium) (fresh_world 1000) doc (Some out_pdf))) =
     [Ghostscript doc out_pdf ''/printer'', PyPDF doc out_pdf]
   \<and> snd (compress_file (with_library 80 (posix_env (engine_const ExeNotFound)))
       (no_target Medium) (fresh_world 1000) doc (Some out_pdf)) = Inr (True, out_pdf)"
proof -
  let ?e = "with_library 80 (posix_env (engine_const ExeNotFound))"
  have h: "files (fresh_world 1000) doc = Some 1000" "lower (suffix doc) = ''.pdf''"
    "target_size_bytes (no_target Medium) = None"
    by code_simp+
  have f: "\<not> snd (compress_with_ghostscript ?e (no_target Medium) (fresh_world 1000) doc out_pdf None)"
    "PYPDF_AVAILABLE ?e"
    "snd (compress_with_pypdf ?e (no_target Medium)
       (fst (compress_with_ghostscript ?e (no_target Medium) (fresh_world 1000) doc out_pdf None))
       doc out_pdf)"
    "exists_path (fst (compress_file ?e (no_target Medium) (fresh_world 1000) doc (Some out_pdf)))
       out_pdf"
    "(1000::nat) \<noteq> 0" "calls (fresh_world 1000) = []"
    "gs_settings (compression_level (no_target Medium)) = ''/printer''"
    by code_simp+
  note t = single_shot_fallback[OF h, of ?e out_pdf]
  from t f have "snd (compress_file ?e (no_target Medium) (fresh_world 1000) doc (Some out_pdf)) =
      Inr (True, out_pdf)"
    by blast
  moreover from t f have "calls (fst (compress_file ?e (no_target Medium) (fresh_world 1000) doc
      (Some out_pdf))) = [Ghostscript doc out_pdf ''/printer'', PyPDF doc out_pdf]"
    by simp
  ultimately show ?thesis by blast
qed

text \<open>
  A Ghostscript run that returns code 0 without leaving a file: the job is reported as
  failed although the first method succeeded, and the library is never called.
\<close>

theorem single_shot_fallback_counterexample:
  "snd (compress_with_ghostscript (with_library 80 (posix_env (engine_const (Completed 0 None))))
       (no_target Medium) (fresh_world 1000) doc out_pdf None)
   \<and> PYPDF_AVAILABLE (with_library 80 (posix_env (engine_const (Completed 0 None))))
   \<and> snd (compress_file (with_library 80 (posix_env (engine_const (Completed 0 None))))
       (no_target Medium) (fresh_world 1000) doc (Some out_pdf)) = Inr (False, doc)
   \<and> calls (fst (compress_file (with_library 80 (posix_env (engine_const (Completed 0 None))))
       (no_target Medium) (fresh_world 1000) doc (Some out_pdf))) =
     [Ghostscript doc out_pdf ''/printer'']"
  by code_simp

section \<open>The default output path\<close>

text \<open>
  C10. Called without an output path, \<open>compress_file\<close> writes next to the input: every
  attempt reads the input and writes to the input's directory joined with the stem of the
  input's name followed by \<open>_compressed.pdf\<close> (or to the temporary sibling of that
  path), and on success this path is returned and exists. The stem is the input's name
  without its \<open>.pdf\<close> suffix.
\<close>

theorem default_output_path:
  fixes inp :: path
  defines "out \<equiv> Path (anchor inp) (butlast (parts inp) @ [stem inp @ ''_compressed.pdf''])"
  shows "(\<forall>p. snd (compress_file e self w inp None) = Inr (True, p) \<longrightarrow>
            p = out \<and> exists_path (fst (compress_file e self w inp None)) out
            \<and> name inp = stem inp @ suffix inp \<and> lower (suffix inp) = ''.pdf'')
       \<and> (\<exists>new. calls (fst (compress_file e self w inp None)) = calls w @ new
            \<and> (\<forall>c\<in>set new. call_input c = inp \<and> call_output c \<in> {out, temp_path out}))"
proof -
  have o: "joinpath (parent inp) (stem inp @ ''_compressed.pdf'') = out"
    by (simp add: joinpath_def parent_def out_def)
  have ret: "p = out \<and> exists_path (fst (compress_file e self w inp None)) out
            \<and> name inp = stem inp @ suffix inp \<and> lower (suffix inp) = ''.pdf''"
    if "snd (compress_file e self w inp None) = Inr (True, p)" for p
    using that
    by (auto simp: compress_file_def Let_def o name_stem_suffix
        split: if_splits sum.splits prod.splits)
  have tr: "\<exists>new. calls (fst (compress_file e self w inp None)) = calls w @ new
            \<and> (\<forall>c\<in>set new. call_input c = inp \<and> call_output c \<in> {out, temp_path out})"
  proof -
    from compress_file_world[of e self w inp None]
    consider "fst (compress_file e self w inp None) = w"
      | t where "target_size_bytes self = Some t"
          "fst (compress_file e self w inp None) = fst (target_size_search e self w inp out t)"
      | "target_size_bytes self = None"
          "fst (compress_file e self w inp None) = fst (single_shot e self w inp out)"
      by (cases "target_size_bytes self") (auto simp: o)
    then show ?thesis
    proof cases
      case 1
      then show ?thesis by simp
    next
      case 2
      then show ?thesis using tss_calls_io[of e self w inp out t] by simp
    next
      case 3
      then show ?thesis
        by (simp add: single_shot_calls)
    qed
  qed
  show ?thesis using ret tr by blast
qed

theorem default_output_path_witness:
  "snd (compress_file (posix_env engine_by_dpi) (no_target Medium) (fresh_world 1000) doc None)
     = Inr (True, Path [] [''doc_compressed.pdf''])
   \<and> exists_path (fst (compress_file (posix_env engine_by_dpi) (no_target Medium) (fresh_world 1000)
        doc None)) (Path [] [''doc_compressed.pdf''])
   \<and> stem doc = ''doc'' \<and> anchor doc = [] \<and> butlast (parts doc) = []"
proof -
  have r: "snd (compress_file (posix_env engine_by_dpi) (no_target Medium) (fresh_world 1000) doc None)
     = Inr (True, Path [] [''doc_compressed.pdf''])"
    by code_simp
  have s: "stem doc = ''doc''" "anchor doc = []" "butlast (parts doc) = []"
    by code_simp+
  from default_output_path[of "posix_env engine_by_dpi" "no_target Medium" "fresh_world 1000" doc] r
  have "exists_path (fst (compress_file (posix_env engine_by_dpi) (no_target Medium)
        (fresh_world 1000) doc None))
        (Path (anchor doc) (butlast (parts doc) @ [stem doc @ ''_compressed.pdf'']))"
    by blast
  then show ?thesis using r s by simp
qed

section \<open>The command line and the batch\<close>

text \<open>
  C6. When the option is given with a finite non-zero value whose product with 1024
  times 1024 stays within the float range, the target is that product, truncated towards
  zero, and a single valid input is compressed by the target-size search (its first call
  is the first row of the table, writing to the temporary path); when the option is
  absent or zero, it is compressed single-shot. With several inputs \<open>main\<close> hands the
  same compressor to the batch, and every job of a compressor with a target runs the
  search, every job of one without runs single-shot.
\<close>

theorem target_size_option:
  fixes e :: env and w :: world and a :: args and f out :: path and xs :: "path list"
  defines "out \<equiv> resolved_output a f"
  assumes lib: "PYPDF_AVAILABLE e"
    and input: "files w f = Some n" "lower (suffix f) = ''.pdf''"
  shows "(\<forall>r. target_size_mb a = Some (Finite r) \<and> r \<noteq> 0 \<and> \<bar>r * 1024 * 1024\<bar> \<le> float_max
          \<longrightarrow>
            target_bytes a = Inr (Some (if 0 \<le> r then \<lfloor>r * 1024 * 1024\<rfloor> else \<lceil>r * 1024 * 1024\<rceil>))
          \<and> (\<exists>t. target_bytes a = Inr (Some t)
                \<and> fst (main e w a [f]) =
                    fst (target_size_search e
                          \<lparr>compression_level = quality a, target_size_bytes = Some t\<rparr> w f out t))
          \<and> (\<exists>rest. calls (fst (main e w a [f])) =
                calls w @ GhostscriptAdvanced f (temp_path out) ''/prepress'' 300 90 # rest))
       \<and> (target_size_mb a = None \<or> target_size_mb a = Some (Finite 0) \<longrightarrow>
            target_bytes a = Inr None
          \<and> fst (main e w a [f]) =
               fst (single_shot e \<lparr>compression_level = quality a, target_size_bytes = None\<rparr> w f out)
          \<and> (\<exists>rest. calls (fst (main e w a [f])) =
                calls w @ Ghostscript f out (gs_settings (quality a)) # rest))
       \<and> (\<forall>tb. 1 < length xs \<and> output a = None \<and> target_bytes a = Inr tb \<longrightarrow>
            fst (main e w a xs) =
              fst (compress_batch e \<lparr>compression_level = quality a, target_size_bytes = tb\<rparr>
                     w xs (output_dir a)))
       \<and> (\<forall>self t w' f' oa n'.
            target_size_bytes self = Some t \<and> files w' f' = Some n' \<and> lower (suffix f') = ''.pdf''
            \<longrightarrow> fst (compress_file e self w' f' oa) =
                  fst (target_size_search e self w' f'
                         (case oa of None \<Rightarrow> joinpath (parent f') (stem f' @ ''_compressed.pdf'')
                          | Some p \<Rightarrow> p) t))
       \<and> (\<forall>self w' f' oa n'.
            target_size_bytes self = None \<and> files w' f' = Some n' \<and> lower (suffix f') = ''.pdf''
            \<longrightarrow> fst (compress_file e self w' f' oa) =
                  fst (single_shot e self w' f'
                         (case oa of None \<Rightarrow> joinpath (parent f') (stem f' @ ''_compressed.pdf'')
                          | Some p \<Rightarrow> p)))"
proof -
  have batch: "fst (main e w a xs) =
              fst (compress_batch e \<lparr>compression_level = quality a, target_size_bytes = tb\<rparr>
                     w xs (output_dir a))"
    if "1 < length xs \<and> output a = None \<and> target_bytes a = Inr tb" for tb
  proof -
    from that have "xs \<noteq> []" "length xs \<noteq> 1" by auto
    then show ?thesis
      using lib that by (simp add: main_def Let_def case_prod_beta split: sum.splits)
  qed
  have job_search: "fst (compress_file e self w' f' oa) =
                  fst (target_size_search e self w' f'
                         (case oa of None \<Rightarrow> joinpath (parent f') (stem f' @ ''_compressed.pdf'')
                          | Some p \<Rightarrow> p) t)"
    if "target_size_bytes self = Some t \<and> files w' f' = Some n' \<and> lower (suffix f') = ''.pdf''"
    for self t w' f' oa n'
    using that compress_file_valid[of w' f' n' e self oa] by simp
  have job_single: "fst (compress_file e self w' f' oa) =
                  fst (single_shot e self w' f'
                         (case oa of None \<Rightarrow> joinpath (parent f') (stem f' @ ''_compressed.pdf'')
                          | Some p \<Rightarrow> p))"
    if "target_size_bytes self = None \<and> files w' f' = Some n' \<and> lower (suffix f') = ''.pdf''"
    for self w' f' oa n'
    using that compress_file_valid[of w' f' n' e self oa] by simp
  have oa: "(case (case output_dir a of
                    Some d \<Rightarrow> Some (joinpath d (stem f @ ''_compressed.pdf''))
                  | None \<Rightarrow> output a) of
              None \<Rightarrow> joinpath (parent f) (stem f @ ''_compressed.pdf'')
            | Some p \<Rightarrow> p) = out"
    by (simp add: out_def resolved_output_def split: option.splits)
  have run: "fst (main e w a [f]) =
      fst (case tb of
             Some t \<Rightarrow> target_size_search e \<lparr>compression_level = quality a, target_size_bytes = tb\<rparr>
                 w f out t
           | None \<Rightarrow> single_shot e \<lparr>compression_level = quality a, target_size_bytes = tb\<rparr> w f out)"
    if "target_bytes a = Inr tb" for tb
  proof -
    let ?C = "\<lparr>compression_level = quality a, target_size_bytes = tb\<rparr>"
    let ?oa = "case output_dir a of
                 Some d \<Rightarrow> Some (joinpath d (stem f @ ''_compressed.pdf''))
               | None \<Rightarrow> output a"
    have m: "fst (main e w a [f]) = fst (compress_file e ?C w f ?oa)"
      using lib that by (simp add: main_def Let_def case_prod_beta split: sum.splits)
    have c: "fst (compress_file e ?C w f ?oa) =
        fst (case target_size_bytes ?C of
               Some t \<Rightarrow> target_size_search e ?C w f
                   (case ?oa of None \<Rightarrow> joinpath (parent f) (stem f @ ''_compressed.pdf'')
                    | Some p \<Rightarrow> p) t
             | None \<Rightarrow> single_shot e ?C w f
                   (case ?oa of None \<Rightarrow> joinpath (parent f) (stem f @ ''_compressed.pdf'')
                    | Some p \<Rightarrow> p))"
      by (simp only: compress_file_valid[OF input] fst_conv)
    show ?thesis
      unfolding m c oa by simp
  qed
  have present: "target_bytes a = Inr (Some (if 0 \<le> r then \<lfloor>r * 1024 * 1024\<rfloor> else \<lceil>r * 1024 * 1024\<rceil>))"
    if "target_size_mb a = Some (Finite r)" "r \<noteq> 0" "\<bar>r * 1024 * 1024\<bar> \<le> float_max" for r
  proof -
    have "\<bar>r * 1024\<bar> \<le> \<bar>r * 1024 * 1024\<bar>"
      by (simp add: abs_mult)
    then have a1: "\<not> float_max < \<bar>r * 1024\<bar>"
      using that(3) by linarith
    have a2: "\<not> float_max < \<bar>r * 1024 * 1024\<bar>"
      using that(3) by linarith
    have "times_int (times_int (Finite r) 1024) 1024 = Finite (r * 1024 * 1024)"
      using a1 a2 by simp
    then show ?thesis
      using that(1,2) by (simp add: target_bytes_def)
  qed
  have absent: "target_bytes a = Inr None"
    if "target_size_mb a = None \<or> target_size_mb a = Some (Finite 0)"
    using that by (auto simp: target_bytes_def)
  have single: "(\<forall>r. target_size_mb a = Some (Finite r) \<and> r \<noteq> 0 \<and> \<bar>r * 1024 * 1024\<bar> \<le> float_max
          \<longrightarrow>
            target_bytes a = Inr (Some (if 0 \<le> r then \<lfloor>r * 1024 * 1024\<rfloor> else \<lceil>r * 1024 * 1024\<rceil>))
          \<and> (\<exists>t. target_bytes a = Inr (Some t)
                \<and> fst (main e w a [f]) =
                    fst (target_size_search e
                          \<lparr>compression_level = quality a, target_size_bytes = Some t\<rparr> w f out t))
          \<and> (\<exists>rest. calls (fst (main e w a [f])) =
                calls w @ GhostscriptAdvanced f (temp_path out) ''/prepress'' 300 90 # rest))
       \<and> (target_size_mb a = None \<or> target_size_mb a = Some (Finite 0) \<longrightarrow>
            target_bytes a = Inr None
          \<and> fst (main e w a [f]) =
               fst (single_shot e \<lparr>compression_level = quality a, target_size_bytes = None\<rparr> w f out)
          \<and> (\<exists>rest. calls (fst (main e w a [f])) =
                calls w @ Ghostscript f out (gs_settings (quality a)) # rest))"
  proof (intro conjI allI impI)
    fix r assume "target_size_mb a = Some (Finite r) \<and> r \<noteq> 0 \<and> \<bar>r * 1024 * 1024\<bar> \<le> float_max"
    then have tb: "target_bytes a = Inr (Some (if 0 \<le> r then \<lfloor>r * 1024 * 1024\<rfloor> else \<lceil>r * 1024 * 1024\<rceil>))"
      using present by blast
    show "target_bytes a = Inr (Some (if 0 \<le> r then \<lfloor>r * 1024 * 1024\<rfloor> else \<lceil>r * 1024 * 1024\<rceil>))"
      by (rule tb)
    show "\<exists>t. target_bytes a = Inr (Some t)
                \<and> fst (main e w a [f]) =
                    fst (target_size_search e
                          \<lparr>compression_level = quality a, target_size_bytes = Some t\<rparr> w f out t)"
      using run[OF tb] tb by auto
    show "\<exists>rest. calls (fst (main e w a [f])) =
                calls w @ GhostscriptAdvanced f (temp_path out) ''/prepress'' 300 90 # rest"
      using run[OF tb] tss_first_call[of e _ w f out] by auto
  next
    assume "target_size_mb a = None \<or> target_size_mb a = Some (Finite 0)"
    then have tb: "target_bytes a = Inr None" using absent by blast
    show "target_bytes a = Inr None" by (rule tb)
    show "fst (main e w a [f]) =
               fst (single_shot e \<lparr>compression_level = quality a, target_size_bytes = None\<rparr> w f out)"
      using run[OF tb] by simp
    then show "\<exists>rest. calls (fst (main e w a [f])) =
                calls w @ Ghostscript f out (gs_settings (quality a)) # rest"
      by (simp add: single_shot_calls)
  qed
  have b: "\<forall>tb. 1 < length xs \<and> output a = None \<and> target_bytes a = Inr tb \<longrightarrow>
            fst (main e w a xs) =
              fst (compress_batch e \<lparr>compression_level = quality a, target_size_bytes = tb\<rparr>
                     w xs (output_dir a))"
    using batch by (intro allI impI)
  have js: "\<forall>self t w' f' oa n'.
            target_size_bytes self = Some t \<and> files w' f' = Some n' \<and> lower (suffix f') = ''.pdf''
            \<longrightarrow> fst (compress_file e self w' f' oa) =
                  fst (target_size_search e self w' f'
                         (case oa of None \<Rightarrow> joinpath (parent f') (stem f' @ ''_compressed.pdf'')
                          | Some p \<Rightarrow> p) t)"
    using job_search by (intro allI impI)
  have jn: "\<forall>self w' f' oa n'.
            target_size_bytes self = None \<and> files w' f' = Some n' \<and> lower (suffix f') = ''.pdf''
            \<longrightarrow> fst (compress_file e self w' f' oa) =
                  fst (single_shot e self w' f'
                         (case oa of None \<Rightarrow> joinpath (parent f') (stem f' @ ''_compressed.pdf'')
                          | Some p \<Rightarrow> p))"
    using job_single by (intro allI impI)
  show ?thesis
    using conjunct1[OF single] conjunct2[OF single] b js jn by (intro conjI)
qed

theorem target_size_option_witness:
  "target_bytes (args_with_target (Some (Finite (3 / 2)))) = Inr (Some 1572864)
   \<and> (\<exists>rest. calls (fst (main (posix_env engine_by_dpi) (fresh_world 1000)
         (args_with_target (Some (Finite (3 / 2)))) [doc])) =
       calls (fresh_world 1000) @
         GhostscriptAdvanced doc (temp_path out_pdf) ''/prepress'' 300 90 # rest)"
proof -
  let ?a = "args_with_target (Some (Finite (3 / 2)))"
  have h: "PYPDF_AVAILABLE (posix_env engine_by_dpi)" "files (fresh_world 1000) doc = Some 1000"
    "lower (suffix doc) = ''.pdf''"
    by code_simp+
  have small: "\<bar>(3 / 2 :: rat) * 1024 * 1024\<bar> \<le> float_max"
  proof -
    have "\<bar>(3 / 2 :: rat) * 1024 * 1024\<bar> \<le> 2 ^ 21" by simp
    also have "(2 ^ 21 :: rat) \<le> 2 ^ 971" by (intro power_increasing) simp_all
    also note float_max_ge
    finally show ?thesis .
  qed
  have p: "target_size_mb ?a = Some (Finite (3 / 2)) \<and> (3 / 2 :: rat) \<noteq> 0
      \<and> \<bar>(3 / 2 :: rat) * 1024 * 1024\<bar> \<le> float_max"
    using small by (simp add: args_with_target_def)
  have o: "resolved_output ?a doc = out_pdf"
    by (simp add: resolved_output_def args_with_target_def)
  have v: "(if 0 \<le> (3 / 2 :: rat) then \<lfloor>(3 / 2 :: rat) * 1024 * 1024\<rfloor> else \<lceil>(3 / 2 :: rat) * 1024 * 1024\<rceil>)
      = 1572864"
    by simp
  note t = target_size_option[OF h, of ?a "[doc, doc]"]
  from t p have "target_bytes ?a =
      Inr (Some (if 0 \<le> (3 / 2 :: rat) then \<lfloor>(3 / 2 :: rat) * 1024 * 1024\<rfloor> else \<lceil>(3 / 2 :: rat) * 1024 * 1024\<rceil>))
    \<and> (\<exists>rest. calls (fst (main (posix_env engine_by_dpi) (fresh_world 1000) ?a [doc])) =
         calls (fresh_world 1000) @
           GhostscriptAdvanced doc (temp_path (resolved_output ?a doc)) ''/prepress'' 300 90 # rest)"
    by blast
  then show ?thesis by (simp only: o v)
qed

text \<open>
  The option given with the value 0: no target, and the job runs single-shot
  compression. Given with the finite value \<open>2 ^ 1023\<close> (about 9e307), the product
  overflows to an infinity and the conversion raises before any job starts; so it does
  for an infinity.
\<close>

theorem target_size_option_counterexample:
  "target_size_mb (args_with_target (Some (Finite 0))) \<noteq> None
   \<and> target_bytes (args_with_target (Some (Finite 0))) = Inr None
   \<and> calls (fst (main (posix_env engine_by_dpi) (fresh_world 1000)
        (args_with_target (Some (Finite 0))) [doc])) = [Ghostscript doc out_pdf ''/printer'']
   \<and> snd (main (posix_env engine_by_dpi) (fresh_world 1000)
        (args_with_target (Some (Finite 0))) [doc]) = SysExit 0
   \<and> huge_mb \<noteq> 0 \<and> \<bar>huge_mb\<bar> \<le> float_max
   \<and> target_bytes (args_with_target (Some (Finite huge_mb))) = Inl OverflowError
   \<and> snd (main (posix_env engine_by_dpi) (fresh_world 1000)
        (args_with_target (Some (Finite huge_mb))) [doc]) = Traceback OverflowError
   \<and> calls (fst (main (posix_env engine_by_dpi) (fresh_world 1000)
        (args_with_target (Some (Finite huge_mb))) [doc])) = []
   \<and> target_bytes (args_with_target (Some Infinite)) = Inl OverflowError
   \<and> snd (main (posix_env engine_by_dpi) (fresh_world 1000) (args_with_target (Some Infinite))
        [doc]) = Traceback OverflowError
   \<and> calls (fst (main (posix_env engine_by_dpi) (fresh_world 1000)
        (args_with_target (Some Infinite)) [doc])) = []"
proof -
  have zero: "target_size_mb (args_with_target (Some (Finite 0))) \<noteq> None"
    "target_bytes (args_with_target (Some (Finite 0))) = Inr None"
    "calls (fst (main (posix_env engine_by_dpi) (fresh_world 1000)
        (args_with_target (Some (Finite 0))) [doc])) = [Ghostscript doc out_pdf ''/printer'']"
    "snd (main (posix_env engine_by_dpi) (fresh_world 1000)
        (args_with_target (Some (Finite 0))) [doc]) = SysExit 0"
    by code_simp+
  have inf: "target_bytes (args_with_target (Some Infinite)) = Inl OverflowError"
    "snd (main (posix_env engine_by_dpi) (fresh_world 1000) (args_with_target (Some Infinite))
        [doc]) = Traceback OverflowError"
    "calls (fst (main (posix_env engine_by_dpi) (fresh_world 1000)
        (args_with_target (Some Infinite)) [doc])) = []"
    by code_simp+
  have twice: "times_int (times_int (Finite huge_mb) 1024) 1024 = Infinite"
    by (simp only: huge_mb_overflows times_int.simps(2))
  have tb: "target_bytes (args_with_target (Some (Finite huge_mb))) = Inl OverflowError"
    using huge_mb_finite
    by (simp add: target_bytes_def args_with_target_def twice del: times_int.simps)
  have m: "main (posix_env engine_by_dpi) (fresh_world 1000)
        (args_with_target (Some (Finite huge_mb))) [doc] = (fresh_world 1000, Traceback OverflowError)"
    by (simp add: main_def tb posix_env_def)
  have c: "calls (fresh_world 1000) = []"
    by (simp add: fresh_world_def)
  show ?thesis
    using zero inf huge_mb_finite tb by (simp add: m c)
qed

text \<open>
  C8. In a batch, a job that \<open>compress_file\<close> reports as failed is recorded and the
  remaining inputs are still processed: when the batch returns, its results hold one entry
  per input, in order, and the process exits with status 1 exactly when some entry is a
  failure. An exception raised while processing a job is not caught per job: it ends the
  batch at that job, and the process exits with status 1.
\<close>

theorem batch_isolation:
  "(\<forall>rs. snd (compress_batch e self w xs d) = Inr rs \<longrightarrow> map (fst \<circ> snd) rs = xs)
   \<and> (\<forall>p. snd (compress_file e self w x (batch_output d x)) = Inr (False, p) \<longrightarrow>
          compress_batch e self w (x # xs) d =
            (case compress_batch e self (fst (compress_file e self w x (batch_output d x))) xs d of
               (w', Inl err) \<Rightarrow> (w', Inl err)
             | (w', Inr rs) \<Rightarrow> (w', Inr ((False, x, p) # rs))))
   \<and> (\<forall>err. snd (compress_file e self w x (batch_output d x)) = Inl err \<longrightarrow>
          compress_batch e self w (x # xs) d =
            (fst (compress_file e self w x (batch_output d x)), Inl err))
   \<and> (PYPDF_AVAILABLE e \<and> 1 < length xs \<and> output a = None \<and> target_bytes a = Inr tb \<longrightarrow>
          snd (main e w a xs) =
            (case snd (compress_batch e \<lparr>compression_level = quality a, target_size_bytes = tb\<rparr>
                         w xs (output_dir a)) of
               Inl err \<Rightarrow> SysExit 1
             | Inr rs \<Rightarrow> SysExit (if \<exists>r\<in>set rs. \<not> fst r then 1 else 0)))"
proof -
  have step: "compress_batch e self w (x # xs) d =
            (case compress_batch e self (fst (compress_file e self w x (batch_output d x))) xs d of
               (w', Inl err) \<Rightarrow> (w', Inl err)
             | (w', Inr rs) \<Rightarrow> (w', Inr ((False, x, p) # rs)))"
    if "snd (compress_file e self w x (batch_output d x)) = Inr (False, p)" for p
    using that
    by (cases "compress_file e self w x (batch_output d x)") (simp add: batch_step)
  have stop: "compress_batch e self w (x # xs) d =
            (fst (compress_file e self w x (batch_output d x)), Inl err)"
    if "snd (compress_file e self w x (batch_output d x)) = Inl err" for err
    using that
    by (cases "compress_file e self w x (batch_output d x)") (simp add: batch_step)
  have exit: "snd (main e w a xs) =
            (case snd (compress_batch e \<lparr>compression_level = quality a, target_size_bytes = tb\<rparr>
                         w xs (output_dir a)) of
               Inl err \<Rightarrow> SysExit 1
             | Inr rs \<Rightarrow> SysExit (if \<exists>r\<in>set rs. \<not> fst r then 1 else 0))"
    if "PYPDF_AVAILABLE e \<and> 1 < length xs \<and> output a = None \<and> target_bytes a = Inr tb"
  proof -
    from that have ne: "xs \<noteq> []" "length xs \<noteq> 1" by auto
    have ff: "(\<exists>r\<in>set rs. (case r of (success, input_path, uu) \<Rightarrow>
                     if \<not> success then [input_path] else []) \<noteq> []) =
        (\<exists>r\<in>set rs. \<not> fst r)" for rs :: "(bool \<times> path \<times> path) list"
    proof -
      have "((case r of (success, input_path, uu) \<Rightarrow>
                     if \<not> success then [input_path] else []) \<noteq> []) = (\<not> fst r)"
        for r :: "bool \<times> path \<times> path"
        by (cases r) auto
      then show ?thesis by simp
    qed
    show ?thesis
      using that ne
      by (cases "compress_batch e \<lparr>compression_level = quality a, target_size_bytes = tb\<rparr>
                         w xs (output_dir a)")
         (simp add: main_def Let_def ff split: sum.splits)
  qed
  show ?thesis
    using batch_inputs[of e self w xs d] step stop exit by blast
qed

theorem batch_isolation_witness:
  "snd (compress_batch (posix_env (engine_fails_on second_pdf)) (no_target Medium) (batch_world 1000)
          batch_paths None) =
     Inr [(True, empty_pdf, Path [] [''empty_compressed.pdf'']),
          (False, second_pdf, second_pdf),
          (True, third_pdf, Path [] [''third_compressed.pdf''])]
   \<and> map (fst \<circ> snd)
        [(True, empty_pdf, Path [] [''empty_compressed.pdf'']),
         (False, second_pdf, second_pdf),
         (True, third_pdf, Path [] [''third_compressed.pdf''])] = batch_paths
   \<and> snd (main (posix_env (engine_fails_on second_pdf)) (batch_world 1000) batch_args batch_paths)
       = SysExit 1"
proof -
  let ?e = "posix_env (engine_fails_on second_pdf)"
  let ?rs = "[(True, empty_pdf, Path [] [''empty_compressed.pdf'']),
          (False, second_pdf, second_pdf),
          (True, third_pdf, Path [] [''third_compressed.pdf''])]"
  have b: "snd (compress_batch ?e (no_target Medium) (batch_world 1000) batch_paths None) = Inr ?rs"
    by code_simp
  have c: "\<lparr>compression_level = quality batch_args, target_size_bytes = None\<rparr> = no_target Medium"
    "output_dir batch_args = None"
    by (simp_all add: batch_args_def no_target_def)
  have h: "PYPDF_AVAILABLE ?e \<and> 1 < length batch_paths \<and> output batch_args = None
      \<and> target_bytes batch_args = Inr None"
    by (simp add: posix_env_def batch_paths_def batch_args_def target_bytes_def)
  note t = batch_isolation[of ?e "no_target Medium" "batch_world 1000" batch_paths None
      empty_pdf batch_args None]
  from t b have m: "map (fst \<circ> snd) ?rs = batch_paths" by blast
  from t h have "snd (main ?e (batch_world 1000) batch_args batch_paths) =
            (case snd (compress_batch ?e \<lparr>compression_level = quality batch_args, target_size_bytes = None\<rparr>
                         (batch_world 1000) batch_paths (output_dir batch_args)) of
               Inl err \<Rightarrow> SysExit 1
             | Inr rs \<Rightarrow> SysExit (if \<exists>r\<in>set rs. \<not> fst r then 1 else 0))"
    by blast
  then have "snd (main ?e (batch_world 1000) batch_args batch_paths) = SysExit 1"
    by (simp add: c b)
  then show ?thesis using b m by blast
qed

text \<open>
  A batch whose first input is an empty file that Ghostscript accepts: the size report
  divides by zero, the batch ends there, and the other two inputs are never attempted.
\<close>

theorem batch_isolation_counterexample:
  "snd (compress_file (posix_env engine_by_dpi) (no_target Medium) (batch_world 0) empty_pdf None)
     = Inl ZeroDivisionError
   \<and> snd (compress_batch (posix_env engine_by_dpi) (no_target Medium) (batch_world 0)
          batch_paths None) = Inl ZeroDivisionError
   \<and> calls (fst (compress_batch (posix_env engine_by_dpi) (no_target Medium) (batch_world 0)
          batch_paths None)) =
       [Ghostscript empty_pdf (Path [] [''empty_compressed.pdf'']) ''/printer'']
   \<and> snd (main (posix_env engine_by_dpi) (batch_world 0) batch_args batch_paths) = SysExit 1
   \<and> calls (fst (main (posix_env engine_by_dpi) (batch_world 0) batch_args batch_paths)) =
       [Ghostscript empty_pdf (Path [] [''empty_compressed.pdf'']) ''/printer'']"
  by code_simp

end
